theory Spec2Isabelle
  imports Main "HOL-Library.Sublist" "HOL-Library.Multiset" "HOL-Library.Word"
    "HOL-Library.Signed_Division"
begin

section \<open>Library functions the code calls\<close>

text \<open>
  The Go packages \<^verbatim>\<open>strings\<close>, \<^verbatim>\<open>strconv\<close>, \<^verbatim>\<open>fmt\<close> and \<^verbatim>\<open>path/filepath\<close>
  are not part of the repository. The functions below give the few operations the
  repository uses, for Unix paths and byte strings.
\<close>

text \<open>\<^verbatim>\<open>strings.Join(elems, sep)\<close>.\<close>

fun strings_Join :: "string list \<Rightarrow> string \<Rightarrow> string" where
  "strings_Join [] sep = []"
| "strings_Join [x] sep = x"
| "strings_Join (x # y # ys) sep = x @ sep @ strings_Join (y # ys) sep"

text \<open>\<^verbatim>\<open>strings.ReplaceAll(s, old, new)\<close> for one-byte \<^verbatim>\<open>old\<close> and \<^verbatim>\<open>new\<close>.\<close>

definition replaceAllChar :: "string \<Rightarrow> char \<Rightarrow> char \<Rightarrow> string" where
  "replaceAllChar s old new = map (\<lambda>c. if c = old then new else c) s"

text \<open>Decimal rendering, as \<^verbatim>\<open>%d\<close>, \<^verbatim>\<open>strconv.Itoa\<close> and \<^verbatim>\<open>strconv.FormatInt(_, 10)\<close> do.\<close>

definition digitChar :: "nat \<Rightarrow> char" where
  "digitChar n = ''0123456789'' ! (n mod 10)"

function showNat :: "nat \<Rightarrow> string" where
  "showNat n = (if n < 10 then [digitChar n] else showNat (n div 10) @ [digitChar n])"
  by pat_completeness auto
termination
  by (relation "measure id") auto

declare showNat.simps [simp del]

definition showInt :: "int \<Rightarrow> string" where
  "showInt i = (if i < 0 then CHR ''-'' # showNat (nat (- i)) else showNat (nat i))"

text \<open>\<^verbatim>\<open>strings.Split(p, "/")\<close>: the fields between slashes, empty ones kept.\<close>

fun splitSlash :: "string \<Rightarrow> string list" where
  "splitSlash [] = [[]]"
| "splitSlash (c # cs) =
     (if c = CHR ''/'' then [] # splitSlash cs
      else (case splitSlash cs of
              [] \<Rightarrow> [[c]]
            | w # ws \<Rightarrow> (c # w) # ws))"

text \<open>
  \<^verbatim>\<open>filepath.Clean\<close> on Unix. It reads the path element by element and keeps the
  elements of the cleaned path: an empty element and \<^verbatim>\<open>.\<close> are dropped; \<^verbatim>\<open>..\<close>
  removes the element before it when there is one that is not itself \<^verbatim>\<open>..\<close>,
  is dropped at the root of a rooted path, and is kept otherwise. The empty result is
  \<^verbatim>\<open>.\<close>.
\<close>

definition cleanStep :: "bool \<Rightarrow> string list \<Rightarrow> string \<Rightarrow> string list" where
  "cleanStep rooted out c =
     (if c = [] \<or> c = ''.'' then out
      else if c = ''..'' then
        (if out \<noteq> [] \<and> last out \<noteq> ''..'' then butlast out
         else if rooted then out
         else out @ [''..''])
      else out @ [c])"

definition filepath_Clean :: "string \<Rightarrow> string" where
  "filepath_Clean p =
     (if p = [] then ''.''
      else
        let rooted = (hd p = CHR ''/'');
            out = foldl (cleanStep rooted) [] (splitSlash p);
            r = (if rooted then ''/'' else []) @ strings_Join out ''/''
        in if r = [] then ''.'' else r)"

text \<open>
  \<^verbatim>\<open>filepath.Join\<close>: leading empty elements are skipped, the rest are joined with
  a slash and cleaned; all elements empty gives the empty string.
\<close>

fun filepath_Join :: "string list \<Rightarrow> string" where
  "filepath_Join [] = []"
| "filepath_Join (e # es) =
     (if e \<noteq> [] then filepath_Clean (strings_Join (e # es) ''/'')
      else filepath_Join es)"

declare filepath_Join.simps [simp del]

text \<open>\<^verbatim>\<open>filepath.IsAbs\<close> on Unix.\<close>

definition filepath_IsAbs :: "string \<Rightarrow> bool" where
  "filepath_IsAbs p = (case p of [] \<Rightarrow> False | c # _ \<Rightarrow> c = CHR ''/'')"

section \<open>Data model\<close>

text \<open>
  Modelled from the spec: the package \<^verbatim>\<open>internal/models\<close> (the declarations of
  \<^verbatim>\<open>Site\<close>, \<^verbatim>\<open>PHPVersionConfig\<close> and \<^verbatim>\<open>UserLimits\<close>) and the package
  \<^verbatim>\<open>internal/config\<close> are not among the sources. The records below have the fields
  the code reads and writes, under the names the code uses, with the types its
  operations on them require. A nil slice or nil map is \<open>None\<close>; a map is the list of its
  entries, with distinct keys. Times are ticks of the clock.
\<close>

record Site =
  ID :: string
  UserID :: string
  Name :: string
  Domain :: string
  Aliases :: "string list option"
  PHPVersion :: string
  RootPath :: string
  PublicPath :: string
  Status :: string
  WorkerMode :: bool
  WorkerFile :: string
  WorkerNum :: int
  Environment :: "(string \<times> string) list option"
  CreatedAt :: nat
  UpdatedAt :: nat

record PHPVersionConfig =
  Version :: string
  Port :: int
  AdminPort :: int
  Enabled :: bool

record Config =
  PHPVersions :: "PHPVersionConfig list"
  SitesDir :: string
  LogDir :: string

text \<open>
  The limits of one tenant. The fields the enforcer reads are 64-bit integers (\<^verbatim>\<open>int64\<close>,
  and \<^verbatim>\<open>int\<close> on the 64-bit platforms it acts on), read as two's complement, since it
  multiplies them; \<open>MaxSites\<close> is only compared with a count.
\<close>

record UserLimits =
  Username :: string
  MaxSites :: int
  MaxDiskMB :: "64 word"
  MaxRAMMB :: "64 word"
  MaxCPUPercent :: "64 word"
  MaxProcesses :: "64 word"

text \<open>Ranging over a nil slice or a nil map runs the body no times.\<close>

definition sliceOf :: "'a list option \<Rightarrow> 'a list" where
  "sliceOf xs = (case xs of None \<Rightarrow> [] | Some ys \<Rightarrow> ys)"

section \<open>Errors\<close>

text \<open>
  The sentinel errors of the registry, the error \<^verbatim>\<open>alias %s already exists\<close> with its
  alias, an error of the operating system with the path it is about, the wrapper
  \<^verbatim>\<open>failed to create directories: %w\<close>, and a decoding error of the snapshot.
\<close>

datatype error =
    ErrSiteNotFound
  | ErrDomainExists
  | ErrInvalidPHPVersion
  | ErrSiteLimitReached
  | AliasExists string
  | OSError string
  | FailedToCreateDirectories error
  | UnmarshalError

section \<open>The configuration generator\<close>

abbreviation TAB :: string where
  "TAB \<equiv> [CHR 0x09]"

text \<open>\<^verbatim>\<open>sanitizeName\<close>: every \<^verbatim>\<open>-\<close> and every \<^verbatim>\<open>.\<close> becomes \<^verbatim>\<open>_\<close>.\<close>

definition sanitizeName :: "string \<Rightarrow> string" where
  "sanitizeName s = replaceAllChar (replaceAllChar s CHR ''-'' CHR ''_'') CHR ''.'' CHR ''_''"

subsection \<open>The front-door document\<close>






subsection \<open>The document of one PHP instance\<close>


definition phpInstanceHeader :: "string \<Rightarrow> int \<Rightarrow> string \<Rightarrow> string" where
  "phpInstanceHeader version adminPort logPath =
     ''# FastCP PHP '' @ version @ '' Instance Configuration\<newline>'' @
     ''# Auto-generated - Do not edit manually\<newline>'' @
     ''\<newline>'' @
     ''{\<newline>'' @
     TAB @ ''admin localhost:'' @ showInt adminPort @ ''\<newline>'' @
     TAB @ ''\<newline>'' @
     TAB @ ''frankenphp\<newline>'' @
     TAB @ ''\<newline>'' @
     TAB @ ''log {\<newline>'' @
     TAB @ TAB @ ''output file '' @ logPath @ '' {\<newline>'' @
     TAB @ TAB @ TAB @ ''roll_size 100mb\<newline>'' @
     TAB @ TAB @ TAB @ ''roll_keep 5\<newline>'' @
     TAB @ TAB @ ''}\<newline>'' @
     TAB @ TAB @ ''format json\<newline>'' @
     TAB @ ''}\<newline>'' @
     ''}\<newline>'' @
     ''\<newline>''"

text \<open>The \<^verbatim>\<open>env\<close> lines of one site, in the order \<open>order\<close> of this loop.\<close>

definition envLines ::
  "((string \<times> string) list \<Rightarrow> (string \<times> string) list) \<Rightarrow> Site \<Rightarrow> string" where
  "envLines order site =
     concat (map (\<lambda>(key, val). TAB @ TAB @ TAB @ ''env '' @ key @ '' '' @ val @ ''\<newline>'')
               (order (sliceOf (Environment site))))"

text \<open>The path of the worker file: as given when absolute, under the document root otherwise.\<close>

definition workerPathOf :: "Site \<Rightarrow> string" where
  "workerPathOf site =
     (let rootPath = filepath_Join [RootPath site, PublicPath site];
          workerPath = WorkerFile site
      in if \<not> filepath_IsAbs workerPath then filepath_Join [rootPath, workerPath]
         else workerPath)"

text \<open>The \<^verbatim>\<open>php_server\<close> directive of one site, with the order of this turn.\<close>

definition phpServerDirective ::
  "(string \<Rightarrow> bool) \<Rightarrow> ((string \<times> string) list \<Rightarrow> (string \<times> string) list) \<Rightarrow> Site \<Rightarrow> string" where
  "phpServerDirective statOK order site =
     (if WorkerMode site \<and> WorkerFile site \<noteq> [] then
        (let workerNum = (if WorkerNum site \<le> 0 then 2 else WorkerNum site);
             workerPath = workerPathOf site
         in if \<not> statOK workerPath then
              TAB @ TAB @ ''# WARNING: Worker file not found, falling back to regular mode\<newline>'' @
              TAB @ TAB @ ''# Expected: '' @ workerPath @ ''\<newline>'' @
              TAB @ TAB @ ''php_server\<newline>''
            else
              TAB @ TAB @ ''php_server {\<newline>'' @
              TAB @ TAB @ TAB @ ''worker '' @ workerPath @ '' '' @ showInt workerNum @ ''\<newline>'' @
              envLines order site @
              TAB @ TAB @ ''}\<newline>'')
      else
        TAB @ TAB @ ''php_server'' @
        (if sliceOf (Environment site) \<noteq> [] then
           '' {\<newline>'' @ envLines order site @ TAB @ TAB @ ''}''
         else []) @
        ''\<newline>'')"

text \<open>One turn of the loop over the sites of the version: the buffer before, the buffer after.\<close>

definition phpInstanceSite ::
  "(string \<Rightarrow> bool) \<Rightarrow> ((string \<times> string) list \<Rightarrow> (string \<times> string) list) \<Rightarrow> string \<Rightarrow> Site \<Rightarrow> string" where
  "phpInstanceSite statOK order buf site =
     (let domains = Domain site # sliceOf (Aliases site);
          matcherName = sanitizeName (ID site);
          rootPath = filepath_Join [RootPath site, PublicPath site]
      in buf @ ''\<newline>'' @ TAB @ ''# Site: '' @ Name site @ '' ('' @ Domain site @ '')\<newline>''
           @ TAB @ ''@'' @ matcherName @ '' host '' @ strings_Join domains '' '' @ ''\<newline>''
           @ TAB @ ''handle @'' @ matcherName @ '' {\<newline>''
           @ TAB @ TAB @ ''root * '' @ rootPath @ ''\<newline>''
           @ TAB @ TAB @ ''encode zstd br gzip\<newline>''
           @ phpServerDirective statOK order site
           @ TAB @ ''}\<newline>'')"

text \<open>The loop over the sites of the version, from its \<open>n\<close>-th turn on.\<close>

fun phpInstanceLoop ::
  "(string \<Rightarrow> bool) \<Rightarrow> (nat \<Rightarrow> (string \<times> string) list \<Rightarrow> (string \<times> string) list) \<Rightarrow>
   nat \<Rightarrow> string \<Rightarrow> Site list \<Rightarrow> string" where
  "phpInstanceLoop statOK rangeOrder n buf [] = buf"
| "phpInstanceLoop statOK rangeOrder n buf (site # rest) =
     phpInstanceLoop statOK rangeOrder (Suc n)
       (phpInstanceSite statOK (rangeOrder n) buf site) rest"

definition phpInstanceFooter :: string where
  \<open>phpInstanceFooter =
     ''\<newline>'' @ TAB @ ''# Default fallback\<newline>'' @
     TAB @ ''handle {\<newline>'' @
     TAB @ TAB @ ''respond "Site not found" 404\<newline>'' @
     TAB @ ''}\<newline>'' @
     ''}\<newline>''\<close>

definition GeneratePHPInstance ::
  "Config \<Rightarrow> (string \<Rightarrow> bool) \<Rightarrow> (nat \<Rightarrow> (string \<times> string) list \<Rightarrow> (string \<times> string) list) \<Rightarrow>
   string \<Rightarrow> int \<Rightarrow> int \<Rightarrow> Site list \<Rightarrow> string \<times> error option" where
  \<open>GeneratePHPInstance cfg statOK rangeOrder version port adminPort sites =
     (let versionSites = filter (\<lambda>site. PHPVersion site = version \<and> Status site = ''active'') sites;
          logPath = filepath_Join [LogDir cfg, ''php-'' @ version @ ''.log''];
          buf = phpInstanceHeader version adminPort logPath
      in if length versionSites = 0 then
           (buf @ ''# No sites configured for PHP '' @ version @ ''\<newline>''
                @ '':'' @ showInt port @ '' {\<newline>''
                @ TAB @ ''respond "No sites configured" 503\<newline>''
                @ ''}\<newline>'', None)
         else
           (let buf = buf @ '':'' @ showInt port @ '' {\<newline>'';
                buf = phpInstanceLoop statOK rangeOrder 0 buf versionSites;
                buf = buf @ phpInstanceFooter
            in (buf, None)))\<close>

section \<open>The site registry\<close>

subsection \<open>State\<close>

text \<open>What reading a file gives: no such file, another read error, bytes that do not decode, or a value.\<close>

datatype 'a fileState = NotExist | Unreadable | Malformed | Content 'a

text \<open>
  The part of the file system the registry touches: the snapshot files by path (the JSON
  text of a list of records is that list: \<^verbatim>\<open>encoding/json\<close> is taken to give back what it
  was given), the directories made, and the other files written. Ownership and access
  control lists are not tracked: the code ignores the results of those calls.
\<close>

record World =
  siteFiles :: "string \<Rightarrow> Site list fileState"
  limitFiles :: "string \<Rightarrow> UserLimits list fileState"
  dirs :: "string set"
  files :: "string set"

record OSUser =
  OSUsername :: string

text \<open>
  What the surroundings decide during one call: the user database, which directory
  creations and file writes fail, the identifier \<^verbatim>\<open>uuid.New()\<close> returns, the clock at
  the n-th call of \<^verbatim>\<open>time.Now()\<close>, and the order in which \<^verbatim>\<open>range\<close> visits the keys
  of the maps \<^verbatim>\<open>m.sites\<close> and \<^verbatim>\<open>m.userLimits\<close>.
\<close>

record OS =
  LookupId :: "string \<Rightarrow> OSUser option"
  Lookup :: "string \<Rightarrow> OSUser option"
  mkdirFails :: "string \<Rightarrow> bool"
  writeFails :: "string \<Rightarrow> bool"
  newUUID :: string
  timeNow :: "nat \<Rightarrow> nat"
  rangeSites :: "(string \<rightharpoonup> Site) \<Rightarrow> string list"
  rangeLimits :: "(string \<rightharpoonup> UserLimits) \<Rightarrow> string list"

text \<open>An order of visit is one of the map at hand when it names each key once.\<close>

definition rangeKeysOK :: "('k \<rightharpoonup> 'v) \<Rightarrow> 'k list \<Rightarrow> bool" where
  "rangeKeysOK mp ks = (distinct ks \<and> set ks = dom mp)"

definition rangeValues :: "('k \<rightharpoonup> 'v) \<Rightarrow> 'k list \<Rightarrow> 'v list" where
  "rangeValues mp ks = List.map_filter mp ks"

text \<open>
  The manager. Its map \<^verbatim>\<open>sites\<close> holds pointers; the record a key maps to here is the
  record the pointer leads to. Callers are taken not to write through the pointers they
  gave to \<^verbatim>\<open>Create\<close> or got back from a call.
\<close>

record Manager =
  sites :: "string \<rightharpoonup> Site"
  domains :: "string \<rightharpoonup> string"
  userLimits :: "string \<rightharpoonup> UserLimits"
  dataPath :: string

definition NewManager :: "string \<Rightarrow> Manager" where
  "NewManager dp = \<lparr>sites = Map.empty, domains = Map.empty, userLimits = Map.empty, dataPath = dp\<rparr>"

subsection \<open>Load and Save\<close>

text \<open>The body of the loop of \<^verbatim>\<open>Load\<close> over the sites of the snapshot.\<close>

definition loadSite :: "Manager \<Rightarrow> Site \<Rightarrow> Manager" where
  "loadSite m site =
     m\<lparr>sites := (sites m)(ID site \<mapsto> site),
       domains := foldl (\<lambda>d alias. d(alias \<mapsto> ID site))
                    ((domains m)(Domain site \<mapsto> ID site)) (sliceOf (Aliases site))\<rparr>"

definition loadLimits :: "World \<Rightarrow> Manager \<Rightarrow> Manager" where
  "loadLimits w m =
     (case limitFiles w (filepath_Join [dataPath m, ''user_limits.json'']) of
        Content limits \<Rightarrow>
          foldl (\<lambda>m limit. m\<lparr>userLimits := (userLimits m)(Username limit \<mapsto> limit)\<rparr>) m limits
      | _ \<Rightarrow> m)"

definition Load :: "World \<Rightarrow> Manager \<Rightarrow> error option \<times> Manager" where
  "Load w m =
     (let sitesFile = filepath_Join [dataPath m, ''sites.json'']
      in case siteFiles w sitesFile of
           Unreadable \<Rightarrow> (Some (OSError sitesFile), m)
         | Malformed \<Rightarrow> (Some UnmarshalError, m)
         | NotExist \<Rightarrow> (None, loadLimits w m)
         | Content ss \<Rightarrow> (None, loadLimits w (foldl loadSite m ss)))"

text \<open>
  \<^verbatim>\<open>Save\<close> and \<^verbatim>\<open>saveUnlocked\<close> have the same body. A write that fails is taken to leave
  the file as it was.
\<close>

definition saveUnlocked :: "OS \<Rightarrow> Manager \<Rightarrow> World \<Rightarrow> error option \<times> World" where
  "saveUnlocked os m w =
     (let sitesL = rangeValues (sites m) (rangeSites os (sites m))
      in if mkdirFails os (dataPath m) then (Some (OSError (dataPath m)), w)
         else
           (let w = w\<lparr>dirs := insert (dataPath m) (dirs w)\<rparr>;
                path = filepath_Join [dataPath m, ''sites.json'']
            in if writeFails os path then (Some (OSError path), w)
               else (None, w\<lparr>siteFiles := (siteFiles w)(path := Content sitesL)\<rparr>)))"

definition Save :: "OS \<Rightarrow> Manager \<Rightarrow> World \<Rightarrow> error option \<times> World" where
  "Save os m w = saveUnlocked os m w"

subsection \<open>Helpers\<close>

definition getUsernameFromID :: "OS \<Rightarrow> string \<Rightarrow> string" where
  "getUsernameFromID os userID =
     (if userID = [] \<or> userID = ''admin'' then []
      else case LookupId os userID of
             Some u \<Rightarrow> OSUsername u
           | None \<Rightarrow> (case Lookup os userID of
                        Some u \<Rightarrow> OSUsername u
                      | None \<Rightarrow> []))"

definition countUserSitesUnlocked :: "OS \<Rightarrow> Manager \<Rightarrow> string \<Rightarrow> nat" where
  "countUserSitesUnlocked os m userID =
     length (filter (\<lambda>site. UserID site = userID)
               (rangeValues (sites m) (rangeSites os (sites m))))"

text \<open>The loop over \<^verbatim>\<open>cfg.PHPVersions\<close> that sets \<^verbatim>\<open>validPHP\<close>.\<close>

definition validPHP :: "Config \<Rightarrow> string \<Rightarrow> bool" where
  "validPHP cfg v = list_ex (\<lambda>pv. Version pv = v \<and> Enabled pv) (PHPVersions cfg)"

definition mkdirAll :: "OS \<Rightarrow> string \<Rightarrow> World \<Rightarrow> error option \<times> World" where
  "mkdirAll os path w =
     (if mkdirFails os path then (Some (OSError path), w)
      else (None, w\<lparr>dirs := insert path (dirs w)\<rparr>))"

fun mkdirAllEach :: "OS \<Rightarrow> string list \<Rightarrow> World \<Rightarrow> error option \<times> World" where
  "mkdirAllEach os [] w = (None, w)"
| "mkdirAllEach os (dir # ds) w =
     (case mkdirAll os dir w of
        (Some err, w') \<Rightarrow> (Some err, w')
      | (None, w') \<Rightarrow> mkdirAllEach os ds w')"

text \<open>
  \<^verbatim>\<open>createSiteDirectories\<close>: the base directory of the user, the three directories of the
  site, and the landing document \<^verbatim>\<open>index.php\<close> when nothing is at its path. The text of the
  document is not tracked.
\<close>

definition createSiteDirectories :: "Config \<Rightarrow> OS \<Rightarrow> Site \<Rightarrow> World \<Rightarrow> error option \<times> World" where
  "createSiteDirectories cfg os site w =
     (let username = getUsernameFromID os (UserID site)
      in case (if username \<noteq> [] \<and> username \<noteq> ''admin''
               then mkdirAll os (filepath_Join [SitesDir cfg, username]) w
               else (None, w)) of
           (Some err, w) \<Rightarrow> (Some err, w)
         | (None, w) \<Rightarrow>
             (case mkdirAllEach os
                     [RootPath site,
                      filepath_Join [RootPath site, PublicPath site],
                      filepath_Join [LogDir cfg, ''sites'', ID site]] w of
                (Some err, w) \<Rightarrow> (Some err, w)
              | (None, w) \<Rightarrow>
                  (let indexPath = filepath_Join [RootPath site, PublicPath site, ''index.php'']
                   in if indexPath \<notin> files w \<and> indexPath \<notin> dirs w then
                        (if writeFails os indexPath then (Some (OSError indexPath), w)
                         else (None, w\<lparr>files := insert indexPath (files w)\<rparr>))
                      else (None, w))))"

subsection \<open>Create\<close>

text \<open>The quota check of \<^verbatim>\<open>Create\<close>: true when the site limit of the owner is reached.\<close>

definition siteLimitReached :: "OS \<Rightarrow> Manager \<Rightarrow> Site \<Rightarrow> bool" where
  "siteLimitReached os m site =
     (if UserID site \<noteq> [] \<and> UserID site \<noteq> ''admin'' then
        (let username = getUsernameFromID os (UserID site)
         in case userLimits m username of
              Some limit \<Rightarrow>
                if MaxSites limit > 0 then
                  (let currentCount = countUserSitesUnlocked os m (UserID site)
                   in int currentCount \<ge> MaxSites limit)
                else False
            | None \<Rightarrow> False)
      else False)"

text \<open>The defaults \<^verbatim>\<open>Create\<close> sets on the site it was given.\<close>

definition setDefaults :: "Config \<Rightarrow> OS \<Rightarrow> Site \<Rightarrow> Site" where
  "setDefaults cfg os site =
     (let site = (if ID site = [] then site\<lparr>ID := newUUID os\<rparr> else site);
          site = (if Status site = [] then site\<lparr>Status := ''active''\<rparr> else site);
          site = (if PublicPath site = [] then site\<lparr>PublicPath := ''public''\<rparr> else site);
          site = (if RootPath site = [] then
                    (let username = getUsernameFromID os (UserID site)
                     in if username \<noteq> [] \<and> username \<noteq> ''admin''
                        then site\<lparr>RootPath := filepath_Join [SitesDir cfg, username, Domain site]\<rparr>
                        else site\<lparr>RootPath := filepath_Join [SitesDir cfg, Domain site]\<rparr>)
                  else site);
          site = site\<lparr>CreatedAt := timeNow os 0\<rparr>;
          site = site\<lparr>UpdatedAt := timeNow os 1\<rparr>
      in site)"

text \<open>The statements under \<^verbatim>\<open>// Add to maps\<close>.\<close>

definition addToMaps :: "Manager \<Rightarrow> Site \<Rightarrow> Manager" where
  "addToMaps m site =
     m\<lparr>sites := (sites m)(ID site \<mapsto> site),
       domains := foldl (\<lambda>d alias. d(alias \<mapsto> ID site))
                    ((domains m)(Domain site \<mapsto> ID site)) (sliceOf (Aliases site))\<rparr>"

fun Create ::
  "Config \<Rightarrow> OS \<Rightarrow> Site \<Rightarrow> Manager \<times> World \<Rightarrow> (error + Site) \<times> Manager \<times> World" where
  "Create cfg os site (m, w) =
     (if domains m (Domain site) \<noteq> None then (Inl ErrDomainExists, m, w)
      else
        (case find (\<lambda>alias. domains m alias \<noteq> None) (sliceOf (Aliases site)) of
           Some alias \<Rightarrow> (Inl (AliasExists alias), m, w)
         | None \<Rightarrow>
             if siteLimitReached os m site then (Inl ErrSiteLimitReached, m, w)
             else if \<not> validPHP cfg (PHPVersion site) then (Inl ErrInvalidPHPVersion, m, w)
             else
               (let site = setDefaults cfg os site
                in (case createSiteDirectories cfg os site w of
                      (Some err, w) \<Rightarrow> (Inl (FailedToCreateDirectories err), m, w)
                    | (None, w) \<Rightarrow>
                        (let m = addToMaps m site
                         in (case saveUnlocked os m w of
                               (Some err, w) \<Rightarrow> (Inl err, m, w)
                             | (None, w) \<Rightarrow> (Inr site, m, w)))))))"

declare Create.simps [simp del]

subsection \<open>Get and GetByDomain\<close>

definition Get :: "Manager \<Rightarrow> string \<Rightarrow> error + Site" where
  "Get m sid = (case sites m sid of None \<Rightarrow> Inl ErrSiteNotFound | Some site \<Rightarrow> Inr site)"

text \<open>\<^verbatim>\<open>GetByDomain\<close> returns \<^verbatim>\<open>m.sites[id]\<close> with no error: nil when the identifier has no site.\<close>

definition GetByDomain :: "Manager \<Rightarrow> string \<Rightarrow> error + Site option" where
  "GetByDomain m domain =
     (case domains m domain of None \<Rightarrow> Inl ErrSiteNotFound | Some sid \<Rightarrow> Inr (sites m sid))"

subsection \<open>Update\<close>

text \<open>
  In \<^verbatim>\<open>Update\<close> the variable \<^verbatim>\<open>site\<close> is the pointer held by the map, so an assignment
  to one of its fields changes the registry at once, and stays when the call returns an
  error later. \<open>store\<close> gives the manager with the record as it stands and the domain
  index as it stands.
\<close>

definition store :: "Manager \<Rightarrow> string \<Rightarrow> Site \<Rightarrow> (string \<rightharpoonup> string) \<Rightarrow> Manager" where
  "store m sid site doms = m\<lparr>sites := (sites m)(sid \<mapsto> site), domains := doms\<rparr>"

text \<open>The loops \<^verbatim>\<open>delete(m.domains, alias)\<close>.\<close>

definition removeMappings :: "(string \<rightharpoonup> string) \<Rightarrow> string list \<Rightarrow> (string \<rightharpoonup> string)" where
  "removeMappings doms hosts = foldl (\<lambda>d h. d(h := None)) doms hosts"

text \<open>
  The loop under \<^verbatim>\<open>// Add new alias mappings\<close>: it stops at the first alias another site
  holds, with the mappings added so far in place.
\<close>

fun addAliasMappings ::
  "string \<Rightarrow> (string \<rightharpoonup> string) \<Rightarrow> string list \<Rightarrow> error option \<times> (string \<rightharpoonup> string)" where
  "addAliasMappings sid doms [] = (None, doms)"
| "addAliasMappings sid doms (alias # rest) =
     (case doms alias of
        Some existingID \<Rightarrow>
          if existingID \<noteq> sid then (Some (AliasExists alias), doms)
          else addAliasMappings sid (doms(alias \<mapsto> sid)) rest
      | None \<Rightarrow> addAliasMappings sid (doms(alias \<mapsto> sid)) rest)"

text \<open>The block of \<^verbatim>\<open>Update\<close> that moves the domain, once the new domain is known to be free.\<close>

definition updateDomain ::
  "string \<Rightarrow> Site \<Rightarrow> Site \<Rightarrow> (string \<rightharpoonup> string) \<Rightarrow> Site \<times> (string \<rightharpoonup> string)" where
  "updateDomain sid updates site doms =
     (if Domain updates \<noteq> [] \<and> Domain updates \<noteq> Domain site
      then (site\<lparr>Domain := Domain updates\<rparr>,
            (doms(Domain site := None))(Domain updates \<mapsto> sid))
      else (site, doms))"

text \<open>
  The block \<^verbatim>\<open>if updates.Aliases != nil\<close>: the old mappings go, the new ones come one by
  one, and \<^verbatim>\<open>site.Aliases\<close> is assigned only when the loop ends without an error.
\<close>

definition updateAliases ::
  "string \<Rightarrow> Site \<Rightarrow> Site \<Rightarrow> (string \<rightharpoonup> string) \<Rightarrow>
   error option \<times> Site \<times> (string \<rightharpoonup> string)" where
  "updateAliases sid updates site doms =
     (case Aliases updates of
        None \<Rightarrow> (None, site, doms)
      | Some newAliases \<Rightarrow>
          (case addAliasMappings sid (removeMappings doms (sliceOf (Aliases site))) newAliases of
             (Some err, doms) \<Rightarrow> (Some err, site, doms)
           | (None, doms) \<Rightarrow> (None, site\<lparr>Aliases := Some newAliases\<rparr>, doms)))"

text \<open>The assignments of \<^verbatim>\<open>Update\<close> after the aliases.\<close>

definition updateRest :: "OS \<Rightarrow> Site \<Rightarrow> Site \<Rightarrow> Site" where
  "updateRest os updates site =
     (let site = (if PublicPath updates \<noteq> [] then site\<lparr>PublicPath := PublicPath updates\<rparr> else site);
          site = (if Status updates \<noteq> [] then site\<lparr>Status := Status updates\<rparr> else site);
          site = site\<lparr>WorkerMode := WorkerMode updates\<rparr>;
          site = (if WorkerFile updates \<noteq> [] then site\<lparr>WorkerFile := WorkerFile updates\<rparr> else site);
          site = (if WorkerNum updates > 0 then site\<lparr>WorkerNum := WorkerNum updates\<rparr> else site);
          site = (if Environment updates \<noteq> None then site\<lparr>Environment := Environment updates\<rparr>
                  else site);
          site = site\<lparr>UpdatedAt := timeNow os 0\<rparr>
      in site)"

text \<open>The end of \<^verbatim>\<open>Update\<close>: the remaining assignments and the save.\<close>

definition finishUpdate ::
  "OS \<Rightarrow> Site \<Rightarrow> Manager \<Rightarrow> World \<Rightarrow> string \<Rightarrow> Site \<Rightarrow> (string \<rightharpoonup> string) \<Rightarrow>
   (error + Site) \<times> Manager \<times> World" where
  "finishUpdate os updates m w sid site doms =
     (let site = updateRest os updates site;
          m = store m sid site doms
      in (case saveUnlocked os m w of
            (Some err, w) \<Rightarrow> (Inl err, m, w)
          | (None, w) \<Rightarrow> (Inr site, m, w)))"

fun Update ::
  "Config \<Rightarrow> OS \<Rightarrow> string \<Rightarrow> Site \<Rightarrow> Manager \<times> World \<Rightarrow> (error + Site) \<times> Manager \<times> World" where
  "Update cfg os sid updates (m, w) =
     (case sites m sid of
        None \<Rightarrow> (Inl ErrSiteNotFound, m, w)
      | Some site \<Rightarrow>
          if Domain updates \<noteq> [] \<and> Domain updates \<noteq> Domain site
             \<and> domains m (Domain updates) \<noteq> None
          then (Inl ErrDomainExists, m, w)
          else
            (case updateDomain sid updates site (domains m) of (site, doms) \<Rightarrow>
               (let site = (if Name updates \<noteq> [] then site\<lparr>Name := Name updates\<rparr> else site)
                in if PHPVersion updates \<noteq> [] \<and> \<not> validPHP cfg (PHPVersion updates)
                   then (Inl ErrInvalidPHPVersion, store m sid site doms, w)
                   else
                     (let site = (if PHPVersion updates \<noteq> []
                                  then site\<lparr>PHPVersion := PHPVersion updates\<rparr> else site)
                      in (case updateAliases sid updates site doms of
                            (Some err, site, doms) \<Rightarrow> (Inl err, store m sid site doms, w)
                          | (None, site, doms) \<Rightarrow>
                              finishUpdate os updates m w sid site doms)))))"

declare Update.simps [simp del]

subsection \<open>Delete, Suspend and Unsuspend\<close>

fun Delete :: "OS \<Rightarrow> string \<Rightarrow> Manager \<times> World \<Rightarrow> error option \<times> Manager \<times> World" where
  "Delete os sid (m, w) =
     (case sites m sid of
        None \<Rightarrow> (Some ErrSiteNotFound, m, w)
      | Some site \<Rightarrow>
          (let doms = removeMappings ((domains m)(Domain site := None)) (sliceOf (Aliases site));
               m = m\<lparr>sites := (sites m)(sid := None), domains := doms\<rparr>
           in (case saveUnlocked os m w of (err, w) \<Rightarrow> (err, m, w))))"

fun Suspend :: "OS \<Rightarrow> string \<Rightarrow> Manager \<times> World \<Rightarrow> error option \<times> Manager \<times> World" where
  "Suspend os sid (m, w) =
     (case sites m sid of
        None \<Rightarrow> (Some ErrSiteNotFound, m, w)
      | Some site \<Rightarrow>
          (let site = site\<lparr>Status := ''suspended'', UpdatedAt := timeNow os 0\<rparr>;
               m = m\<lparr>sites := (sites m)(sid \<mapsto> site)\<rparr>
           in (case saveUnlocked os m w of (err, w) \<Rightarrow> (err, m, w))))"

fun Unsuspend :: "OS \<Rightarrow> string \<Rightarrow> Manager \<times> World \<Rightarrow> error option \<times> Manager \<times> World" where
  "Unsuspend os sid (m, w) =
     (case sites m sid of
        None \<Rightarrow> (Some ErrSiteNotFound, m, w)
      | Some site \<Rightarrow>
          (let site = site\<lparr>Status := ''active'', UpdatedAt := timeNow os 0\<rparr>;
               m = m\<lparr>sites := (sites m)(sid \<mapsto> site)\<rparr>
           in (case saveUnlocked os m w of (err, w) \<Rightarrow> (err, m, w))))"

declare Delete.simps [simp del] Suspend.simps [simp del] Unsuspend.simps [simp del]

subsection \<open>User limits\<close>

definition GetUserLimit :: "Manager \<Rightarrow> string \<Rightarrow> UserLimits" where
  "GetUserLimit m username =
     (case userLimits m username of
        Some limit \<Rightarrow> limit
      | None \<Rightarrow> \<lparr>Username = username, MaxSites = 0, MaxDiskMB = 0, MaxRAMMB = 0,
                  MaxCPUPercent = 0, MaxProcesses = 0\<rparr>)"

definition saveUserLimitsUnlocked :: "OS \<Rightarrow> Manager \<Rightarrow> World \<Rightarrow> error option \<times> World" where
  "saveUserLimitsUnlocked os m w =
     (let limits = rangeValues (userLimits m) (rangeLimits os (userLimits m))
      in if mkdirFails os (dataPath m) then (Some (OSError (dataPath m)), w)
         else
           (let w = w\<lparr>dirs := insert (dataPath m) (dirs w)\<rparr>;
                path = filepath_Join [dataPath m, ''user_limits.json'']
            in if writeFails os path then (Some (OSError path), w)
               else (None, w\<lparr>limitFiles := (limitFiles w)(path := Content limits)\<rparr>)))"

fun SetUserLimit :: "OS \<Rightarrow> UserLimits \<Rightarrow> Manager \<times> World \<Rightarrow> error option \<times> Manager \<times> World" where
  "SetUserLimit os limit (m, w) =
     (let m = m\<lparr>userLimits := (userLimits m)(Username limit \<mapsto> limit)\<rparr>
      in (case saveUserLimitsUnlocked os m w of (err, w) \<Rightarrow> (err, m, w)))"

declare SetUserLimit.simps [simp del]

section \<open>The resource isolation enforcer\<close>

text \<open>
  The calls by which the enforcer changes the system or runs a program, in the order it
  makes them: each with its arguments, whether or not the call then succeeds.
\<close>

datatype action =
    MkdirAll string
  | WriteFile string string
  | Exec string "string list"

text \<open>
  What the surroundings decide: the platform, whether \<^verbatim>\<open>cgroup.controllers\<close> is there,
  which directory creations fail, whether \<^verbatim>\<open>setquota\<close> is installed, whether
  \<^verbatim>\<open>id -u\<close> and \<^verbatim>\<open>id -g\<close> succeed for a user, and the file system \<^verbatim>\<open>df\<close>
  reports for a path, if it reports one. A failed write of a control file and a failed
  \<^verbatim>\<open>setquota\<close> are only logged by the code.
\<close>

record LimitsOS =
  GOOS :: string
  cgroupControllers :: bool
  cgroupMkdirFails :: "string \<Rightarrow> bool"
  setquotaInstalled :: bool
  idUserOK :: "string \<Rightarrow> bool"
  idGroupOK :: "string \<Rightarrow> bool"
  dfReports :: "string \<Rightarrow> string option"

datatype limitsError = FailedToCreateCgroup string | UserNotFound string

definition applyCgroupLimits ::
  "LimitsOS \<Rightarrow> string \<Rightarrow> UserLimits \<Rightarrow> limitsError option \<times> action list" where
  "applyCgroupLimits os cgroupPath limits =
     (if \<not> cgroupControllers os then (None, [])
      else
        (let cgroupName = ''fastcp-'' @ Username limits;
             cgroupDir = filepath_Join [cgroupPath, cgroupName]
         in if cgroupMkdirFails os cgroupDir
            then (Some (FailedToCreateCgroup cgroupDir), [MkdirAll cgroupDir])
            else
              (let log = [MkdirAll cgroupDir,
                          WriteFile (filepath_Join [cgroupPath, ''cgroup.subtree_control''])
                            ''+cpu +memory +pids''];
                   log = (if sint (MaxRAMMB limits) > 0 then
                            (let memBytes = MaxRAMMB limits * 1024 * 1024;
                                 memFile = filepath_Join [cgroupDir, ''memory.max'']
                             in log @ [WriteFile memFile (showInt (sint memBytes))])
                          else log);
                   log = (if sint (MaxCPUPercent limits) > 0 then
                            (let period = (100000 :: 64 word);
                                 quota = sint (MaxCPUPercent limits * period) sdiv 100;
                                 cpuMax = showInt quota @ '' '' @ showInt (sint period);
                                 cpuFile = filepath_Join [cgroupDir, ''cpu.max'']
                             in log @ [WriteFile cpuFile cpuMax])
                          else log);
                   log = (if sint (MaxProcesses limits) > 0 then
                            (let pidsFile = filepath_Join [cgroupDir, ''pids.max'']
                             in log @ [WriteFile pidsFile (showInt (sint (MaxProcesses limits)))])
                          else log)
               in (None, log))))"

text \<open>\<^verbatim>\<open>lookupUser\<close> runs \<^verbatim>\<open>id -u\<close>, then \<^verbatim>\<open>id -g\<close>; the first failure is its error.\<close>

definition lookupUser :: "LimitsOS \<Rightarrow> string \<Rightarrow> bool \<times> action list" where
  "lookupUser os username =
     (if \<not> idUserOK os username then (False, [Exec ''id'' [''-u'', username]])
      else if \<not> idGroupOK os username
      then (False, [Exec ''id'' [''-u'', username], Exec ''id'' [''-g'', username]])
      else (True, [Exec ''id'' [''-u'', username], Exec ''id'' [''-g'', username]]))"

definition applyDiskQuota :: "LimitsOS \<Rightarrow> UserLimits \<Rightarrow> limitsError option \<times> action list" where
  "applyDiskQuota os limits =
     (if MaxDiskMB limits = 0 then (None, [])
      else if \<not> setquotaInstalled os then (None, [])
      else
        (case lookupUser os (Username limits) of
           (False, log) \<Rightarrow> (Some (UserNotFound (Username limits)), log)
         | (True, log) \<Rightarrow>
             (let softLimit = MaxDiskMB limits * 1024;
                  hardLimit = MaxDiskMB limits * 1024;
                  softInodes = (100000 :: 64 word);
                  hardInodes = (150000 :: 64 word);
                  log = log @ [Exec ''df'' [''-P'', ''/var/www'']]
              in (case dfReports os ''/var/www'' of
                    None \<Rightarrow> (None, log)
                  | Some filesystem \<Rightarrow>
                      (None, log @ [Exec ''setquota''
                                      [''-u'', Username limits,
                                       showInt (sint softLimit), showInt (sint hardLimit),
                                       showInt (sint softInodes), showInt (sint hardInodes),
                                       filesystem]])))))"

text \<open>
  \<^verbatim>\<open>ApplyLimits\<close>: the errors of the two parts under their labels, none when both
  succeed, and the calls made.
\<close>

definition ApplyLimits ::
  "LimitsOS \<Rightarrow> string \<Rightarrow> UserLimits \<Rightarrow> (string \<times> limitsError) list option \<times> action list" where
  "ApplyLimits os cgroupPath limits =
     (if GOOS os \<noteq> ''linux'' then (None, [])
      else
        (case applyCgroupLimits os cgroupPath limits of (e1, log1) \<Rightarrow>
         (case applyDiskQuota os limits of (e2, log2) \<Rightarrow>
            (let errors = (case e1 of None \<Rightarrow> [] | Some err \<Rightarrow> [(''cgroup'', err)])
                        @ (case e2 of None \<Rightarrow> [] | Some err \<Rightarrow> [(''quota'', err)])
             in (if length errors > 0 then Some errors else None, log1 @ log2)))))"

section \<open>Properties of a registry state\<close>

text \<open>The hostnames of a site: its domain and its aliases.\<close>

definition hostsOf :: "Site \<Rightarrow> string set" where
  "hostsOf site = insert (Domain site) (set (sliceOf (Aliases site)))"

text \<open>
  The domain index is consistent: it maps a hostname to an identifier exactly when the
  registry has a site under that identifier with that hostname.
\<close>

definition indexConsistent :: "Manager \<Rightarrow> bool" where
  "indexConsistent m =
     (\<forall>h i. (domains m h = Some i) = (\<exists>site. sites m i = Some site \<and> h \<in> hostsOf site))"

text \<open>Every site is stored under its own identifier, as \<^verbatim>\<open>Load\<close> and \<^verbatim>\<open>Create\<close> store it.\<close>

definition keysAreIDs :: "Manager \<Rightarrow> bool" where
  "keysAreIDs m = (\<forall>k site. sites m k = Some site \<longrightarrow> ID site = k)"

section \<open>Example values\<close>

text \<open>Concrete inputs on which the definitions above are run.\<close>

definition site0 :: Site where
  "site0 = \<lparr>ID = [], UserID = [], Name = [], Domain = [], Aliases = None, PHPVersion = [],
            RootPath = [], PublicPath = [], Status = [], WorkerMode = False, WorkerFile = [],
            WorkerNum = 0, Environment = None, CreatedAt = 0, UpdatedAt = 0\<rparr>"

definition cfg0 :: Config where
  "cfg0 = \<lparr>PHPVersions = [\<lparr>Version = ''8.3'', Port = 9001, AdminPort = 2020, Enabled = True\<rparr>],
           SitesDir = ''/var/www'', LogDir = ''/var/log/fastcp''\<rparr>"

definition workerSite :: Site where
  "workerSite = site0\<lparr>ID := ''w1'', Name := ''W'', Domain := ''w.test'', PHPVersion := ''8.3'',
     RootPath := ''/var/www/w.test'', PublicPath := ''public'', Status := ''active'',
     WorkerMode := True, WorkerFile := ''worker.php''\<rparr>"

definition spaceSite :: Site where
  "spaceSite = site0\<lparr>ID := ''a b'', Name := ''S'', Domain := ''s.test'', PHPVersion := ''8.3'',
     RootPath := ''/var/www/s.test'', PublicPath := ''public'', Status := ''active''\<rparr>"

definition envSite :: Site where
  "envSite = site0\<lparr>ID := ''e1'', Name := ''E'', Domain := ''e.test'', PHPVersion := ''8.3'',
     RootPath := ''/var/www/e.test'', PublicPath := ''public'', Status := ''active'',
     Environment := Some [(''A'', ''1''), (''B'', ''2'')]\<rparr>"

definition os0 :: OS where
  "os0 = \<lparr>LookupId = (\<lambda>_. None), Lookup = (\<lambda>_. None), mkdirFails = (\<lambda>_. False),
          writeFails = (\<lambda>_. False), newUUID = ''u1'', timeNow = (\<lambda>n. n),
          rangeSites = (\<lambda>sm. filter (\<lambda>k. sm k \<noteq> None) [''A'', ''B'']),
          rangeLimits = (\<lambda>_. [])\<rparr>"

definition w0 :: World where
  "w0 = \<lparr>siteFiles = (\<lambda>_. NotExist), limitFiles = (\<lambda>_. NotExist), dirs = {}, files = {}\<rparr>"

definition siteA :: Site where
  "siteA = site0\<lparr>ID := ''A'', Name := ''A'', Domain := ''a.test'', Aliases := Some [''x.test''],
     PHPVersion := ''8.3'', RootPath := ''/var/www/a.test'', PublicPath := ''public'',
     Status := ''active''\<rparr>"

definition siteB :: Site where
  "siteB = site0\<lparr>ID := ''B'', Name := ''B'', Domain := ''b.test'',
     PHPVersion := ''8.3'', RootPath := ''/var/www/b.test'', PublicPath := ''public'',
     Status := ''active''\<rparr>"

definition storedA :: Site where "storedA = siteA\<lparr>CreatedAt := 0, UpdatedAt := 1\<rparr>"
definition storedB :: Site where "storedB = siteB\<lparr>CreatedAt := 0, UpdatedAt := 1\<rparr>"

definition regA :: Manager where
  "regA = \<lparr>sites = [''A'' \<mapsto> storedA], domains = [''a.test'' \<mapsto> ''A'', ''x.test'' \<mapsto> ''A''],
           userLimits = Map.empty, dataPath = ''/data''\<rparr>"

definition regAB :: Manager where
  "regAB = \<lparr>sites = [''A'' \<mapsto> storedA, ''B'' \<mapsto> storedB],
            domains = [''a.test'' \<mapsto> ''A'', ''x.test'' \<mapsto> ''A'', ''b.test'' \<mapsto> ''B''],
            userLimits = Map.empty, dataPath = ''/data''\<rparr>"

definition statusPatch :: Site where
  "statusPatch = site0\<lparr>WorkerMode := True\<rparr>"

definition aliasPatch :: Site where
  "aliasPatch = site0\<lparr>Aliases := Some [''b.test'']\<rparr>"

definition osBob :: OS where
  "osBob = os0\<lparr>Lookup := (\<lambda>u. if u = ''bob'' then Some \<lparr>OSUsername = ''bob''\<rparr> else None)\<rparr>"

definition limitBob :: UserLimits where
  "limitBob = \<lparr>Username = ''bob'', MaxSites = 1, MaxDiskMB = 0, MaxRAMMB = 0,
                MaxCPUPercent = 0, MaxProcesses = 0\<rparr>"

definition regBob :: Manager where
  "regBob = \<lparr>sites = [''A'' \<mapsto> storedA\<lparr>UserID := ''bob''\<rparr>],
             domains = [''a.test'' \<mapsto> ''A'', ''x.test'' \<mapsto> ''A''],
             userLimits = [''bob'' \<mapsto> limitBob], dataPath = ''/data''\<rparr>"

definition linuxOS :: LimitsOS where
  "linuxOS = \<lparr>GOOS = ''linux'', cgroupControllers = True, cgroupMkdirFails = (\<lambda>_. False),
              setquotaInstalled = True, idUserOK = (\<lambda>_. True), idGroupOK = (\<lambda>_. True),
              dfReports = (\<lambda>_. Some ''/dev/sda1'')\<rparr>"

definition halfCore :: UserLimits where
  "halfCore = \<lparr>Username = ''bob'', MaxSites = 0, MaxDiskMB = 0, MaxRAMMB = 0,
               MaxCPUPercent = 50, MaxProcesses = 0\<rparr>"

definition workerEnvSite :: Site where
  "workerEnvSite = workerSite\<lparr>Environment := Some [(''X'', ''1''), (''Y'', ''2'')]\<rparr>"

definition oneEnvSite :: Site where
  "oneEnvSite = envSite\<lparr>Environment := Some [(''A'', ''1'')]\<rparr>"

definition osUid :: OS where
  "osUid = osBob\<lparr>LookupId := (\<lambda>u. if u = ''1001'' then Some \<lparr>OSUsername = ''bob''\<rparr> else None)\<rparr>"

definition regUid :: Manager where
  "regUid = \<lparr>sites = [''A'' \<mapsto> storedA\<lparr>UserID := ''1001''\<rparr>],
             domains = [''a.test'' \<mapsto> ''A'', ''x.test'' \<mapsto> ''A''],
             userLimits = [''bob'' \<mapsto> limitBob], dataPath = ''/data''\<rparr>"

section \<open>Auxiliary definitions\<close>

text \<open>The lines of a site block before its \<^verbatim>\<open>root\<close> line.\<close>

definition phpInstanceSiteHead :: "Site \<Rightarrow> string" where
  "phpInstanceSiteHead site =
     ''\<newline>'' @ TAB @ ''# Site: '' @ Name site @ '' ('' @ Domain site @ '')\<newline>''
       @ TAB @ ''@'' @ sanitizeName (ID site) @ '' host ''
       @ strings_Join (Domain site # sliceOf (Aliases site)) '' '' @ ''\<newline>''
       @ TAB @ ''handle @'' @ sanitizeName (ID site) @ '' {\<newline>''"

text \<open>A path element that \<^verbatim>\<open>filepath.Clean\<close> keeps as it is.\<close>

definition simpleName :: "string \<Rightarrow> bool" where
  "simpleName n = (n \<noteq> [] \<and> n \<noteq> ''.'' \<and> n \<noteq> ''..'' \<and> CHR ''/'' \<notin> set n)"

text \<open>The sites \<^verbatim>\<open>GeneratePHPInstance\<close> keeps: those of the version that are active.\<close>

definition versionSitesOf :: "string \<Rightarrow> Site list \<Rightarrow> Site list" where
  "versionSitesOf version siteList =
     filter (\<lambda>site. PHPVersion site = version \<and> Status site = ''active'') siteList"


text \<open>The document of a version with sites, up to the first block.\<close>

definition phpInstanceHead :: "Config \<Rightarrow> string \<Rightarrow> int \<Rightarrow> int \<Rightarrow> string" where
  "phpInstanceHead cfg version port adminPort =
     phpInstanceHeader version adminPort (filepath_Join [LogDir cfg, ''php-'' @ version @ ''.log''])
       @ '':'' @ showInt port @ '' {\<newline>''"

section \<open>Evaluation rules\<close>

lemmas evalPath = filepath_Join.simps filepath_Clean_def cleanStep_def filepath_IsAbs_def
lemmas evalShow = showInt_def showNat.simps digitChar_def

section \<open>The generator: lemmas and claims\<close>

lemma phpInstanceSite_buf:
  "phpInstanceSite statOK order buf site = buf @ phpInstanceSite statOK order [] site"
  by (simp add: phpInstanceSite_def Let_def)

lemma map_upt_Suc_shift: "map f [0..<Suc k] = f 0 # map (\<lambda>i. f (Suc i)) [0..<k]"
proof -
  have "[0..<Suc k] = 0 # map Suc [0..<k]"
    by (simp add: upt_conv_Cons map_Suc_upt del: upt_Suc)
  then show ?thesis by (simp add: comp_def del: upt_Suc)
qed

lemma phpInstanceLoop_blocks:
  "phpInstanceLoop statOK r n buf xs
     = buf @ concat (map (\<lambda>i. phpInstanceSite statOK (r (n + i)) [] (xs ! i)) [0..<length xs])"
proof (induction xs arbitrary: n buf)
  case Nil
  show ?case by simp
next
  case (Cons x xs)
  have "phpInstanceLoop statOK r n buf (x # xs)
          = phpInstanceLoop statOK r (Suc n) (buf @ phpInstanceSite statOK (r n) [] x) xs"
    using phpInstanceSite_buf [of statOK "r n" buf x] by simp
  also have "\<dots> = (buf @ phpInstanceSite statOK (r n) [] x)
       @ concat (map (\<lambda>i. phpInstanceSite statOK (r (Suc n + i)) [] (xs ! i)) [0..<length xs])"
    by (rule Cons.IH)
  also have "\<dots> = buf @ concat (map (\<lambda>i. phpInstanceSite statOK (r (n + i)) [] ((x # xs) ! i))
                                  [0..<length (x # xs)])"
    using map_upt_Suc_shift [of "\<lambda>i. phpInstanceSite statOK (r (n + i)) [] ((x # xs) ! i)" "length xs"]
    by simp
  finally show ?case .
qed

lemma phpInstance_output:
  assumes "versionSitesOf version siteList \<noteq> []"
  shows "GeneratePHPInstance cfg statOK r version port adminPort siteList =
     (phpInstanceHead cfg version port adminPort
        @ concat (map (\<lambda>i. phpInstanceSite statOK (r i) [] (versionSitesOf version siteList ! i))
                    [0..<length (versionSitesOf version siteList)])
        @ phpInstanceFooter, None)"
  using assms unfolding GeneratePHPInstance_def Let_def versionSitesOf_def phpInstanceHead_def
  by (simp add: phpInstanceLoop_blocks)



















lemma example_selected:
  "versionSitesOf ''8.3'' [envSite] = [envSite]"
  "versionSitesOf ''8.3'' [workerSite] = [workerSite]"
  "versionSitesOf ''8.3'' [spaceSite] = [spaceSite]"
  "versionSitesOf ''8.3'' [envSite, workerEnvSite] = [envSite, workerEnvSite]"
  "versionSitesOf ''8.3'' [oneEnvSite, workerEnvSite] = [oneEnvSite, workerEnvSite]"
  "PHPVersion workerEnvSite = ''8.3'' \<and> Status workerEnvSite = ''active''"
  by (simp_all add: versionSitesOf_def envSite_def workerSite_def spaceSite_def workerEnvSite_def
        oneEnvSite_def site0_def)





lemma upt_split_at:
  assumes "i < n"
  shows "[0..<n] = [0..<i] @ i # [Suc i..<n]"
proof -
  have "[0..<n] = [0..<i] @ [i..<n]"
    using assms upt_add_eq_append [of 0 i "n - i"] by simp
  then show ?thesis using assms by (simp add: upt_conv_Cons)
qed

lemma phpInstance_output_at:
  assumes "i < length (versionSitesOf version siteList)"
  shows "GeneratePHPInstance cfg statOK r version port adminPort siteList =
     (phpInstanceHead cfg version port adminPort
        @ concat (map (\<lambda>k. phpInstanceSite statOK (r k) [] (versionSitesOf version siteList ! k))
                    [0..<i])
        @ phpInstanceSite statOK (r i) [] (versionSitesOf version siteList ! i)
        @ concat (map (\<lambda>k. phpInstanceSite statOK (r k) [] (versionSitesOf version siteList ! k))
                    [Suc i..<length (versionSitesOf version siteList)])
        @ phpInstanceFooter, None)"
proof -
  have ne: "versionSitesOf version siteList \<noteq> []" using assms by auto
  show ?thesis
    unfolding phpInstance_output [OF ne] upt_split_at [OF assms] by simp
qed

lemma phpInstance_contains_block:
  assumes "i < length (versionSitesOf version siteList)"
  shows "sublist (phpInstanceSite statOK (r i) [] (versionSitesOf version siteList ! i))
           (fst (GeneratePHPInstance cfg statOK r version port adminPort siteList))"
proof -
  let ?out = "fst (GeneratePHPInstance cfg statOK r version port adminPort siteList)"
  let ?B = "\<lambda>k. phpInstanceSite statOK (r k) [] (versionSitesOf version siteList ! k)"
  have "?out = (phpInstanceHead cfg version port adminPort @ concat (map ?B [0..<i]))
          @ ?B i
          @ (concat (map ?B [Suc i..<length (versionSitesOf version siteList)]) @ phpInstanceFooter)"
    unfolding phpInstance_output_at [OF assms] fst_conv by simp
  then show ?thesis unfolding sublist_def by blast
qed

lemma phpInstanceSite_split:
  "phpInstanceSite statOK order [] site =
     phpInstanceSiteHead site
       @ (TAB @ TAB @ ''root * '' @ filepath_Join [RootPath site, PublicPath site] @ ''\<newline>''
       @ TAB @ TAB @ ''encode zstd br gzip\<newline>''
       @ phpServerDirective statOK order site
       @ TAB @ ''}\<newline>'')"
  unfolding phpInstanceSite_def phpInstanceSiteHead_def Let_def by simp

text \<open>
  C5: the matcher name keeps every character other than \<^verbatim>\<open>-\<close> and \<^verbatim>\<open>.\<close>. For the
  site ID \<^verbatim>\<open>a b\<close> it is \<^verbatim>\<open>a b\<close>, and the document has the lines
  \<^verbatim>\<open>@a b host s.test\<close> and \<^verbatim>\<open>handle @a b {\<close>, where the space ends the matcher
  token after \<^verbatim>\<open>@a\<close>.
\<close>

theorem sanitizeName_space_kept:
  "sanitizeName (ID spaceSite) = ''a b''
   \<and> sublist (TAB @ ''@a b host s.test\<newline>'' @ TAB @ ''handle @a b {\<newline>'')
        (fst (GeneratePHPInstance cfg0 (\<lambda>_. False) (\<lambda>n. id) ''8.3'' 9001 2020 [spaceSite]))"
proof -
  let ?line = "TAB @ ''@a b host s.test\<newline>'' @ TAB @ ''handle @a b {\<newline>''"
  let ?block = "phpInstanceSite (\<lambda>_. False) id [] spaceSite"
  have name: "sanitizeName (ID spaceSite) = ''a b''"
    by (simp add: sanitizeName_def replaceAllChar_def spaceSite_def site0_def)
  have "0 < length (versionSitesOf ''8.3'' [spaceSite])"
    by (simp add: example_selected)
  from phpInstance_contains_block [OF this, of "\<lambda>_. False" "\<lambda>n. id" cfg0 9001 2020]
  have sub: "sublist ?block
      (fst (GeneratePHPInstance cfg0 (\<lambda>_. False) (\<lambda>n. id) ''8.3'' 9001 2020 [spaceSite]))"
    by (simp add: example_selected)
  have head: "phpInstanceSiteHead spaceSite = (''\<newline>'' @ TAB @ ''# Site: S (s.test)\<newline>'') @ ?line"
    unfolding phpInstanceSiteHead_def name by (simp add: spaceSite_def site0_def sliceOf_def)
  have "?block = (''\<newline>'' @ TAB @ ''# Site: S (s.test)\<newline>'') @ ?line
     @ (TAB @ TAB @ ''root * '' @ filepath_Join [RootPath spaceSite, PublicPath spaceSite] @ ''\<newline>''
       @ TAB @ TAB @ ''encode zstd br gzip\<newline>''
       @ phpServerDirective (\<lambda>_. False) id spaceSite
       @ TAB @ ''}\<newline>'')"
    unfolding phpInstanceSite_split head by simp
  then have "sublist ?line ?block" unfolding sublist_def by blast
  then show ?thesis using sub name by (meson sublist_order.order_trans)
qed

text \<open>The block of a site in worker mode with a worker file.\<close>

lemma worker_block:
  assumes "WorkerMode site" and "WorkerFile site \<noteq> []"
  shows "phpInstanceSite statOK order [] site =
     (let rootPath = filepath_Join [RootPath site, PublicPath site];
          workerPath = (if filepath_IsAbs (WorkerFile site) then WorkerFile site
                        else filepath_Join [rootPath, WorkerFile site]);
          workerNum = (if WorkerNum site \<le> 0 then 2 else WorkerNum site)
      in ''\<newline>'' @ TAB @ ''# Site: '' @ Name site @ '' ('' @ Domain site @ '')\<newline>''
         @ TAB @ ''@'' @ sanitizeName (ID site) @ '' host ''
         @ strings_Join (Domain site # sliceOf (Aliases site)) '' '' @ ''\<newline>''
         @ TAB @ ''handle @'' @ sanitizeName (ID site) @ '' {\<newline>''
         @ TAB @ TAB @ ''root * '' @ rootPath @ ''\<newline>''
         @ TAB @ TAB @ ''encode zstd br gzip\<newline>''
         @ (if statOK workerPath then
              TAB @ TAB @ ''php_server {\<newline>'' @
              TAB @ TAB @ TAB @ ''worker '' @ workerPath @ '' '' @ showInt workerNum @ ''\<newline>'' @
              envLines order site @
              TAB @ TAB @ ''}\<newline>''
            else
              TAB @ TAB @ ''# WARNING: Worker file not found, falling back to regular mode\<newline>'' @
              TAB @ TAB @ ''# Expected: '' @ workerPath @ ''\<newline>'' @
              TAB @ TAB @ ''php_server\<newline>'')
         @ TAB @ ''}\<newline>'')"
  using assms
  unfolding phpInstanceSite_def phpServerDirective_def workerPathOf_def Let_def
  by simp

text \<open>
  C8: for every active site of the version with \<^verbatim>\<open>WorkerMode\<close> set and a non-empty
  \<^verbatim>\<open>WorkerFile\<close>, the call returns no error and the whole document is: the head, the
  blocks of the sites before, the block of the site, the blocks of the sites after, the
  foot. The block of the site has the root \<^verbatim>\<open>RootPath/PublicPath\<close>; the worker path is
  the worker file itself when absolute and the worker file under that root otherwise;
  when the path exists the block has the \<^verbatim>\<open>worker\<close> directive with \<^verbatim>\<open>WorkerNum\<close>, or
  2 when \<^verbatim>\<open>WorkerNum\<close> is not positive, and the \<^verbatim>\<open>env\<close> lines, and nothing else; when
  it does not, the block has the warning, the expected path and a plain
  \<^verbatim>\<open>php_server\<close>, and nothing else.
\<close>

theorem worker_mode_directive:
  assumes "i < length (versionSitesOf version siteList)"
    and "site = versionSitesOf version siteList ! i"
    and "WorkerMode site" and "WorkerFile site \<noteq> []"
  shows "GeneratePHPInstance cfg statOK rangeOrder version port adminPort siteList =
     (let rootPath = filepath_Join [RootPath site, PublicPath site];
          workerPath = (if filepath_IsAbs (WorkerFile site) then WorkerFile site
                        else filepath_Join [rootPath, WorkerFile site]);
          workerNum = (if WorkerNum site \<le> 0 then 2 else WorkerNum site)
      in (phpInstanceHead cfg version port adminPort
          @ concat (map (\<lambda>k. phpInstanceSite statOK (rangeOrder k) []
                                (versionSitesOf version siteList ! k)) [0..<i])
          @ ''\<newline>'' @ TAB @ ''# Site: '' @ Name site @ '' ('' @ Domain site @ '')\<newline>''
          @ TAB @ ''@'' @ sanitizeName (ID site) @ '' host ''
          @ strings_Join (Domain site # sliceOf (Aliases site)) '' '' @ ''\<newline>''
          @ TAB @ ''handle @'' @ sanitizeName (ID site) @ '' {\<newline>''
          @ TAB @ TAB @ ''root * '' @ rootPath @ ''\<newline>''
          @ TAB @ TAB @ ''encode zstd br gzip\<newline>''
          @ (if statOK workerPath then
               TAB @ TAB @ ''php_server {\<newline>'' @
               TAB @ TAB @ TAB @ ''worker '' @ workerPath @ '' '' @ showInt workerNum @ ''\<newline>'' @
               envLines (rangeOrder i) site @
               TAB @ TAB @ ''}\<newline>''
             else
               TAB @ TAB @ ''# WARNING: Worker file not found, falling back to regular mode\<newline>'' @
               TAB @ TAB @ ''# Expected: '' @ workerPath @ ''\<newline>'' @
               TAB @ TAB @ ''php_server\<newline>'')
          @ TAB @ ''}\<newline>''
          @ concat (map (\<lambda>k. phpInstanceSite statOK (rangeOrder k) []
                                (versionSitesOf version siteList ! k))
                      [Suc i..<length (versionSitesOf version siteList)])
          @ phpInstanceFooter, None))"
proof -
  have blk: "phpInstanceSite statOK (rangeOrder i) [] (versionSitesOf version siteList ! i)
            = phpInstanceSite statOK (rangeOrder i) [] site"
    using assms(2) by simp
  show ?thesis
    unfolding phpInstance_output_at [OF assms(1)] blk worker_block [OF assms(3,4)] Let_def
    by (simp only: append_assoc)
qed

lemma workerSite_fields:
  "Status workerSite = ''active''" "PHPVersion workerSite = ''8.3''" "WorkerMode workerSite"
  "WorkerFile workerSite = ''worker.php''" "WorkerNum workerSite = 0"
  "RootPath workerSite = ''/var/www/w.test''" "PublicPath workerSite = ''public''"
  "Environment workerSite = None" "Name workerSite = ''W''" "Domain workerSite = ''w.test''"
  "ID workerSite = ''w1''" "Aliases workerSite = None"
  by (simp_all add: workerSite_def site0_def)

lemma workerSite_paths:
  "filepath_Join [''/var/www/w.test'', ''public''] = ''/var/www/w.test/public''"
  "filepath_Join [''/var/www/w.test/public'', ''worker.php''] = ''/var/www/w.test/public/worker.php''"
  "filepath_IsAbs ''worker.php'' = False"
  by (simp_all add: evalPath)

theorem worker_mode_directive_witness:
  "GeneratePHPInstance cfg0 (\<lambda>_. False) (\<lambda>n. id) ''8.3'' 9001 2020 [workerSite] =
     (phpInstanceHead cfg0 ''8.3'' 9001 2020
      @ ''\<newline>'' @ TAB @ ''# Site: W (w.test)\<newline>''
      @ TAB @ ''@w1 host w.test\<newline>''
      @ TAB @ ''handle @w1 {\<newline>''
      @ TAB @ TAB @ ''root * /var/www/w.test/public\<newline>''
      @ TAB @ TAB @ ''encode zstd br gzip\<newline>''
      @ TAB @ TAB @ ''# WARNING: Worker file not found, falling back to regular mode\<newline>''
      @ TAB @ TAB @ ''# Expected: /var/www/w.test/public/worker.php\<newline>''
      @ TAB @ TAB @ ''php_server\<newline>''
      @ TAB @ ''}\<newline>''
      @ phpInstanceFooter, None)
   \<and> GeneratePHPInstance cfg0 (\<lambda>_. True) (\<lambda>n. id) ''8.3'' 9001 2020 [workerSite] =
     (phpInstanceHead cfg0 ''8.3'' 9001 2020
      @ ''\<newline>'' @ TAB @ ''# Site: W (w.test)\<newline>''
      @ TAB @ ''@w1 host w.test\<newline>''
      @ TAB @ ''handle @w1 {\<newline>''
      @ TAB @ TAB @ ''root * /var/www/w.test/public\<newline>''
      @ TAB @ TAB @ ''encode zstd br gzip\<newline>''
      @ TAB @ TAB @ ''php_server {\<newline>''
      @ TAB @ TAB @ TAB @ ''worker /var/www/w.test/public/worker.php 2\<newline>''
      @ TAB @ TAB @ ''}\<newline>''
      @ TAB @ ''}\<newline>''
      @ phpInstanceFooter, None)"
proof -
  have i: "0 < length (versionSitesOf ''8.3'' [workerSite])"
    and s: "workerSite = versionSitesOf ''8.3'' [workerSite] ! 0"
    and f: "WorkerFile workerSite \<noteq> []"
    by (simp_all add: example_selected workerSite_fields)
  have two: "showInt 2 = ''2''" by (simp add: evalShow)
  have env: "envLines id workerSite = []"
    by (simp add: envLines_def workerSite_fields sliceOf_def)
  have name: "sanitizeName ''w1'' = ''w1''" by (simp add: sanitizeName_def replaceAllChar_def)
  have al: "sliceOf (None :: string list option) = []" by (simp add: sliceOf_def)
  note a = worker_mode_directive [OF i s workerSite_fields(3) f, of cfg0 "\<lambda>_. False" "\<lambda>n. id" 9001 2020,
             unfolded Let_def workerSite_fields workerSite_paths example_selected]
  note b = worker_mode_directive [OF i s workerSite_fields(3) f, of cfg0 "\<lambda>_. True" "\<lambda>n. id" 9001 2020,
             unfolded Let_def workerSite_fields workerSite_paths example_selected]
  show ?thesis using a b by (simp add: two env name al)
qed

section \<open>The registry: lemmas\<close>

lemmas evalCreate = Create.simps sliceOf_def siteLimitReached_def validPHP_def setDefaults_def
  createSiteDirectories_def getUsernameFromID_def mkdirAll_def addToMaps_def saveUnlocked_def
  rangeValues_def Let_def evalPath

lemmas evalUpdate = Update.simps updateDomain_def updateAliases_def removeMappings_def
  finishUpdate_def updateRest_def store_def validPHP_def sliceOf_def saveUnlocked_def
  rangeValues_def Let_def evalPath

lemma finishUpdate_Inr:
  assumes "finishUpdate os updates m w sid site doms = (Inr site', m', w')"
  shows "site' = updateRest os updates site \<and> sites m' sid = Some site'"
proof (cases "saveUnlocked os (store m sid (updateRest os updates site) doms) w")
  case (Pair e w2)
  then show ?thesis using assms unfolding finishUpdate_def Let_def
    by (cases e) (auto simp: store_def)
qed

lemma updateRest_fields:
  "WorkerMode (updateRest os updates site) = WorkerMode updates"
  "Status (updateRest os updates site) = (if Status updates = [] then Status site else Status updates)"
  "PublicPath (updateRest os updates site) = (if PublicPath updates = [] then PublicPath site else PublicPath updates)"
  "WorkerFile (updateRest os updates site) = (if WorkerFile updates = [] then WorkerFile site else WorkerFile updates)"
  "WorkerNum (updateRest os updates site) = (if WorkerNum updates > 0 then WorkerNum updates else WorkerNum site)"
  "Environment (updateRest os updates site) = (if Environment updates = None then Environment site else Environment updates)"
  "Name (updateRest os updates site) = Name site"
  "Domain (updateRest os updates site) = Domain site"
  "PHPVersion (updateRest os updates site) = PHPVersion site"
  "Aliases (updateRest os updates site) = Aliases site"
  "ID (updateRest os updates site) = ID site"
  "UserID (updateRest os updates site) = UserID site"
  "RootPath (updateRest os updates site) = RootPath site"
  "CreatedAt (updateRest os updates site) = CreatedAt site"
  by (simp_all add: updateRest_def Let_def)

lemma updateDomain_site:
  "fst (updateDomain sid updates site doms) =
     (if Domain updates \<noteq> [] \<and> Domain updates \<noteq> Domain site
      then site\<lparr>Domain := Domain updates\<rparr> else site)"
  by (simp add: updateDomain_def)

lemma updateAliases_None:
  assumes "updateAliases sid updates site doms = (None, site', doms')"
  shows "site' = (if Aliases updates = None then site else site\<lparr>Aliases := Aliases updates\<rparr>)"
proof (cases "Aliases updates")
  case None
  then show ?thesis using assms by (simp add: updateAliases_def)
next
  case (Some newAliases)
  obtain e d where r: "addAliasMappings sid (removeMappings doms (sliceOf (Aliases site))) newAliases = (e, d)"
    by (cases "addAliasMappings sid (removeMappings doms (sliceOf (Aliases site))) newAliases")
  show ?thesis using assms Some r by (cases e) (simp_all add: updateAliases_def)
qed

text \<open>The shape of a successful Update.\<close>

lemma Update_Inr:
  assumes "Update cfg os sid updates (m, w) = (Inr site', m', w')"
  shows "\<exists>site. sites m sid = Some site \<and> sites m' sid = Some site' \<and>
     site' = updateRest os updates
       (let s1 = (if Domain updates \<noteq> [] \<and> Domain updates \<noteq> Domain site
                  then site\<lparr>Domain := Domain updates\<rparr> else site);
            s2 = (if Name updates \<noteq> [] then s1\<lparr>Name := Name updates\<rparr> else s1);
            s3 = (if PHPVersion updates \<noteq> [] then s2\<lparr>PHPVersion := PHPVersion updates\<rparr> else s2)
        in (if Aliases updates = None then s3 else s3\<lparr>Aliases := Aliases updates\<rparr>))"
proof -
  obtain site where s: "sites m sid = Some site"
    using assms by (cases "sites m sid") (simp_all add: Update.simps)
  let ?taken = "Domain updates \<noteq> [] \<and> Domain updates \<noteq> Domain site
             \<and> domains m (Domain updates) \<noteq> None"
  have nt: "\<not> ?taken"
  proof
    assume ?taken
    then show False using assms s by (simp add: Update.simps)
  qed
  obtain s1 d1 where ud: "updateDomain sid updates site (domains m) = (s1, d1)"
    by (cases "updateDomain sid updates site (domains m)")
  have s1: "s1 = (if Domain updates \<noteq> [] \<and> Domain updates \<noteq> Domain site
                  then site\<lparr>Domain := Domain updates\<rparr> else site)"
    using updateDomain_site [of sid updates site "domains m"] ud by simp
  let ?s2 = "if Name updates \<noteq> [] then s1\<lparr>Name := Name updates\<rparr> else s1"
  let ?bad = "PHPVersion updates \<noteq> [] \<and> \<not> validPHP cfg (PHPVersion updates)"
  have nb: "\<not> ?bad"
  proof
    assume b: ?bad
    have "Update cfg os sid updates (m, w) = (Inl ErrInvalidPHPVersion, store m sid ?s2 d1, w)"
      by (simp only: Update.simps s option.case if_not_P [OF nt] ud prod.case Let_def if_P [OF b])
    then show False using assms by simp
  qed
  let ?s3 = "if PHPVersion updates \<noteq> [] then ?s2\<lparr>PHPVersion := PHPVersion updates\<rparr> else ?s2"
  obtain e s4 d4 where ua: "updateAliases sid updates ?s3 d1 = (e, s4, d4)"
    by (cases "updateAliases sid updates ?s3 d1")
  have U: "Update cfg os sid updates (m, w) =
             (case e of Some err \<Rightarrow> (Inl err, store m sid s4 d4, w)
              | None \<Rightarrow> finishUpdate os updates m w sid s4 d4)"
    by (cases e)
      (simp_all only: Update.simps s option.case if_not_P [OF nt] ud prod.case Let_def
         if_not_P [OF nb] ua)
  have fin: "e = None \<and> finishUpdate os updates m w sid s4 d4 = (Inr site', m', w')"
    using assms unfolding U by (cases e) simp_all
  have s4: "s4 = (if Aliases updates = None then ?s3 else ?s3\<lparr>Aliases := Aliases updates\<rparr>)"
    using updateAliases_None ua fin by blast
  have "site' = updateRest os updates s4 \<and> sites m' sid = Some site'"
    using finishUpdate_Inr fin by blast
  then show ?thesis using s s1 s4 by (simp add: Let_def)
qed

lemma find_None_aliases:
  "(find (\<lambda>alias. domains m alias \<noteq> None) xs = None) = (\<forall>alias \<in> set xs. domains m alias = None)"
  by (auto simp: find_None_iff)

text \<open>The checks of Create, in the order of the code.\<close>

lemma Create_domain_taken:
  assumes "domains m (Domain site) \<noteq> None"
  shows "Create cfg os site (m, w) = (Inl ErrDomainExists, m, w)"
  using assms by (simp add: Create.simps)

lemma Create_alias_taken:
  assumes "domains m (Domain site) = None"
    and "find (\<lambda>alias. domains m alias \<noteq> None) (sliceOf (Aliases site)) = Some alias"
  shows "Create cfg os site (m, w) = (Inl (AliasExists alias), m, w)"
  using assms by (simp add: Create.simps)

lemma Create_limit_reached:
  assumes "domains m (Domain site) = None"
    and "find (\<lambda>alias. domains m alias \<noteq> None) (sliceOf (Aliases site)) = None"
    and "siteLimitReached os m site"
  shows "Create cfg os site (m, w) = (Inl ErrSiteLimitReached, m, w)"
  using assms by (simp add: Create.simps)

lemma Create_invalid_php:
  assumes "domains m (Domain site) = None"
    and "find (\<lambda>alias. domains m alias \<noteq> None) (sliceOf (Aliases site)) = None"
    and "\<not> siteLimitReached os m site" and "\<not> validPHP cfg (PHPVersion site)"
  shows "Create cfg os site (m, w) = (Inl ErrInvalidPHPVersion, m, w)"
  using assms by (simp add: Create.simps)

lemma Create_after_checks:
  assumes "domains m (Domain site) = None"
    and "find (\<lambda>alias. domains m alias \<noteq> None) (sliceOf (Aliases site)) = None"
    and "\<not> siteLimitReached os m site" and "validPHP cfg (PHPVersion site)"
  shows "fst (Create cfg os site (m, w)) \<noteq> Inl ErrSiteLimitReached"
proof -
  let ?s = "setDefaults cfg os site"
  obtain e1 w1 where d: "createSiteDirectories cfg os ?s w = (e1, w1)"
    by (cases "createSiteDirectories cfg os ?s w")
  obtain e2 w2 where sv: "saveUnlocked os (addToMaps m ?s) w1 = (e2, w2)"
    by (cases "saveUnlocked os (addToMaps m ?s) w1")
  have "e2 \<noteq> Some ErrSiteLimitReached"
    using sv by (auto simp: saveUnlocked_def Let_def split: if_splits)
  then show ?thesis
    using assms d sv by (cases e1; cases e2) (simp_all add: Create.simps Let_def)
qed

lemma createA:
  "fst (Create cfg0 os0 siteA (NewManager ''/data'', w)) = Inr storedA
   \<and> fst (snd (Create cfg0 os0 siteA (NewManager ''/data'', w))) = regA"
  by (simp add: evalCreate cfg0_def os0_def siteA_def site0_def NewManager_def regA_def storedA_def)

lemma createB:
  "fst (Create cfg0 os0 siteB (regA, w)) = Inr storedB
   \<and> fst (snd (Create cfg0 os0 siteB (regA, w))) = regAB"
  by (simp add: evalCreate cfg0_def os0_def siteB_def siteA_def site0_def regA_def regAB_def storedA_def storedB_def)

lemma updateAB:
  "fst (Update cfg0 os0 ''A'' aliasPatch (regAB, w)) = Inl (AliasExists ''b.test'')"
  "domains (fst (snd (Update cfg0 os0 ''A'' aliasPatch (regAB, w)))) ''x.test'' = None"
  "sites (fst (snd (Update cfg0 os0 ''A'' aliasPatch (regAB, w)))) ''A'' = Some storedA"
  "snd (snd (Update cfg0 os0 ''A'' aliasPatch (regAB, w))) = w"
  by (simp_all add: evalUpdate cfg0_def os0_def regAB_def storedA_def storedB_def siteA_def siteB_def
        site0_def aliasPatch_def)

lemma regAB_reached:
  "\<exists>w. snd (Create cfg0 os0 siteB (snd (Create cfg0 os0 siteA (NewManager ''/data'', w0)))) = (regAB, w)"
proof -
  obtain r1 m1 w1 where c1: "Create cfg0 os0 siteA (NewManager ''/data'', w0) = (r1, m1, w1)"
    by (cases "Create cfg0 os0 siteA (NewManager ''/data'', w0)")
  then have m1: "m1 = regA" using createA [of w0] by simp
  obtain r2 m2 w2 where c2: "Create cfg0 os0 siteB (regA, w1) = (r2, m2, w2)"
    by (cases "Create cfg0 os0 siteB (regA, w1)")
  then have "m2 = regAB" using createB [of w1] by simp
  then show ?thesis using c1 m1 c2 by simp
qed

lemma update_statusPatch:
  "fst (Update cfg0 os0 ''A'' statusPatch (regA, w0)) = Inr (storedA\<lparr>WorkerMode := True, UpdatedAt := 0\<rparr>)"
  "sites (fst (snd (Update cfg0 os0 ''A'' statusPatch (regA, w0)))) ''A''
     = Some (storedA\<lparr>WorkerMode := True, UpdatedAt := 0\<rparr>)"
  by (simp_all add: evalUpdate cfg0_def os0_def w0_def regA_def storedA_def siteA_def site0_def
        statusPatch_def)

section \<open>The registry: claims\<close>

text \<open>
  C1: \<^verbatim>\<open>Update\<close> with an alias that another site holds returns the alias-conflict
  error, but not with the registry as it was. In the registry with site A (domain
  \<^verbatim>\<open>a.test\<close>, alias \<^verbatim>\<open>x.test\<close>) and site B (domain \<^verbatim>\<open>b.test\<close>), the call that
  sets the aliases of A to \<^verbatim>\<open>b.test\<close> fails, and the mapping of \<^verbatim>\<open>x.test\<close>, there
  before the call, is gone after it: the old mappings are deleted before the new aliases
  are checked.
\<close>

theorem update_alias_conflict_changes_index:
  "fst (Update cfg0 os0 ''A'' aliasPatch (regAB, w0)) = Inl (AliasExists ''b.test'')
   \<and> domains regAB ''x.test'' = Some ''A''
   \<and> domains (fst (snd (Update cfg0 os0 ''A'' aliasPatch (regAB, w0)))) ''x.test'' = None"
  using updateAB [of w0] by (simp add: regAB_def)

text \<open>
  C3, as the claim states it, fails: a patch with an empty \<^verbatim>\<open>Status\<close> leaves the
  status of the stored site as it was.
\<close>

theorem update_status_counterexample:
  "Status statusPatch = []
   \<and> fst (Update cfg0 os0 ''A'' statusPatch (regA, w0))
       = Inr (storedA\<lparr>WorkerMode := True, UpdatedAt := 0\<rparr>)
   \<and> sites (fst (snd (Update cfg0 os0 ''A'' statusPatch (regA, w0)))) ''A''
       = Some (storedA\<lparr>WorkerMode := True, UpdatedAt := 0\<rparr>)
   \<and> Status (storedA\<lparr>WorkerMode := True, UpdatedAt := 0\<rparr>) = ''active''"
  using update_statusPatch by (simp add: statusPatch_def site0_def storedA_def siteA_def)

text \<open>
  C3, amended: after every successful \<^verbatim>\<open>Update\<close> the stored site has the
  \<^verbatim>\<open>WorkerMode\<close> of the patch, whatever it is; its \<^verbatim>\<open>Status\<close> is that of the patch
  when the patch has a non-empty one and is unchanged otherwise, as for \<^verbatim>\<open>Name\<close>,
  \<^verbatim>\<open>Domain\<close>, \<^verbatim>\<open>PHPVersion\<close>, \<^verbatim>\<open>PublicPath\<close> and \<^verbatim>\<open>WorkerFile\<close>; \<^verbatim>\<open>WorkerNum\<close>
  is replaced by a positive one only; \<^verbatim>\<open>Aliases\<close> and \<^verbatim>\<open>Environment\<close> are replaced
  unless nil in the patch; the other fields but \<^verbatim>\<open>UpdatedAt\<close> stay.
\<close>

theorem update_field_rules:
  assumes "Update cfg os sid updates (m, w) = (Inr site', m', w')"
  shows "\<exists>site. sites m sid = Some site \<and> sites m' sid = Some site'
    \<and> WorkerMode site' = WorkerMode updates
    \<and> Status site' = (if Status updates = [] then Status site else Status updates)
    \<and> Name site' = (if Name updates = [] then Name site else Name updates)
    \<and> Domain site' = (if Domain updates = [] then Domain site else Domain updates)
    \<and> PHPVersion site' = (if PHPVersion updates = [] then PHPVersion site else PHPVersion updates)
    \<and> PublicPath site' = (if PublicPath updates = [] then PublicPath site else PublicPath updates)
    \<and> WorkerFile site' = (if WorkerFile updates = [] then WorkerFile site else WorkerFile updates)
    \<and> WorkerNum site' = (if WorkerNum updates > 0 then WorkerNum updates else WorkerNum site)
    \<and> Aliases site' = (if Aliases updates = None then Aliases site else Aliases updates)
    \<and> Environment site' = (if Environment updates = None then Environment site
                            else Environment updates)
    \<and> ID site' = ID site \<and> UserID site' = UserID site \<and> RootPath site' = RootPath site
    \<and> CreatedAt site' = CreatedAt site"
proof -
  from Update_Inr [OF assms] obtain site where
    s: "sites m sid = Some site" and s': "sites m' sid = Some site'" and
    eq: "site' = updateRest os updates
       (let s1 = (if Domain updates \<noteq> [] \<and> Domain updates \<noteq> Domain site
                  then site\<lparr>Domain := Domain updates\<rparr> else site);
            s2 = (if Name updates \<noteq> [] then s1\<lparr>Name := Name updates\<rparr> else s1);
            s3 = (if PHPVersion updates \<noteq> [] then s2\<lparr>PHPVersion := PHPVersion updates\<rparr> else s2)
        in (if Aliases updates = None then s3 else s3\<lparr>Aliases := Aliases updates\<rparr>))"
    by blast
  have "WorkerMode site' = WorkerMode updates"
    and "Status site' = (if Status updates = [] then Status site else Status updates)"
    and "Name site' = (if Name updates = [] then Name site else Name updates)"
    and "Domain site' = (if Domain updates = [] then Domain site else Domain updates)"
    and "PHPVersion site' = (if PHPVersion updates = [] then PHPVersion site else PHPVersion updates)"
    and "PublicPath site' = (if PublicPath updates = [] then PublicPath site else PublicPath updates)"
    and "WorkerFile site' = (if WorkerFile updates = [] then WorkerFile site else WorkerFile updates)"
    and "WorkerNum site' = (if WorkerNum updates > 0 then WorkerNum updates else WorkerNum site)"
    and "Aliases site' = (if Aliases updates = None then Aliases site else Aliases updates)"
    and "Environment site' = (if Environment updates = None then Environment site
                            else Environment updates)"
    and "ID site' = ID site" and "UserID site' = UserID site" and "RootPath site' = RootPath site"
    and "CreatedAt site' = CreatedAt site"
    unfolding eq by (simp_all add: updateRest_fields Let_def)
  then show ?thesis using s s' by blast
qed

theorem update_field_rules_witness:
  "WorkerMode (storedA\<lparr>WorkerMode := True, UpdatedAt := 0\<rparr>) = WorkerMode statusPatch
   \<and> Status (storedA\<lparr>WorkerMode := True, UpdatedAt := 0\<rparr>) = Status storedA
   \<and> sites (fst (snd (Update cfg0 os0 ''A'' statusPatch (regA, w0)))) ''A''
       = Some (storedA\<lparr>WorkerMode := True, UpdatedAt := 0\<rparr>)"
proof -
  obtain m' w' where u: "Update cfg0 os0 ''A'' statusPatch (regA, w0)
      = (Inr (storedA\<lparr>WorkerMode := True, UpdatedAt := 0\<rparr>), m', w')"
    using update_statusPatch(1) by (cases "Update cfg0 os0 ''A'' statusPatch (regA, w0)") auto
  have a: "sites regA ''A'' = Some storedA" by (simp add: regA_def)
  have b: "Status statusPatch = []" by (simp add: statusPatch_def site0_def)
  show ?thesis using update_field_rules [OF u] a b by (auto simp: u)
qed

text \<open>
  C10: the state reached from the empty registry by creating A (domain \<^verbatim>\<open>a.test\<close>,
  alias \<^verbatim>\<open>x.test\<close>), creating B (domain \<^verbatim>\<open>b.test\<close>) and then calling
  \<^verbatim>\<open>Update\<close> on A with the alias \<^verbatim>\<open>b.test\<close>, which fails, has an inconsistent index:
  site A still has the alias \<^verbatim>\<open>x.test\<close> and the index no longer maps it.
\<close>

theorem failed_update_breaks_index:
  "fst (Update cfg0 os0 ''A'' aliasPatch
          (snd (Create cfg0 os0 siteB (snd (Create cfg0 os0 siteA (NewManager ''/data'', w0))))))
     = Inl (AliasExists ''b.test'')
   \<and> \<not> indexConsistent (fst (snd (Update cfg0 os0 ''A'' aliasPatch
          (snd (Create cfg0 os0 siteB (snd (Create cfg0 os0 siteA (NewManager ''/data'', w0))))))))"
proof -
  obtain w where r: "snd (Create cfg0 os0 siteB (snd (Create cfg0 os0 siteA (NewManager ''/data'', w0)))) = (regAB, w)"
    using regAB_reached by blast
  let ?m = "fst (snd (Update cfg0 os0 ''A'' aliasPatch (regAB, w)))"
  have "sites ?m ''A'' = Some storedA" and "''x.test'' \<in> hostsOf storedA"
    and "domains ?m ''x.test'' = None"
    using updateAB [of w] by (simp_all add: hostsOf_def storedA_def siteA_def site0_def sliceOf_def)
  then have "\<not> indexConsistent ?m"
    unfolding indexConsistent_def by (metis option.distinct(1))
  then show ?thesis unfolding r using updateAB(1) [of w] by simp
qed

lemma count_filter_map_filter:
  assumes "distinct ks"
  shows "length (filter P (List.map_filter f ks)) = card {k \<in> set ks. \<exists>s. f k = Some s \<and> P s}"
  using assms
proof (induction ks)
  case Nil
  show ?case by (simp add: List.map_filter_simps)
next
  case (Cons a ks)
  let ?Q = "\<lambda>k. \<exists>s. f k = Some s \<and> P s"
  have fin: "finite {k \<in> set ks. ?Q k}" by simp
  have notin: "a \<notin> {k \<in> set ks. ?Q k}" using Cons.prems by simp
  have split: "{k \<in> set (a # ks). ?Q k} = (if ?Q a then insert a {k \<in> set ks. ?Q k} else {k \<in> set ks. ?Q k})"
    by auto
  have IH: "length (filter P (List.map_filter f ks)) = card {k \<in> set ks. ?Q k}"
    using Cons by simp
  show ?case
  proof (cases "f a")
    case None
    then show ?thesis unfolding split using IH by (simp add: List.map_filter_simps)
  next
    case (Some s)
    then show ?thesis unfolding split using IH
      by (simp add: List.map_filter_simps card_insert_disjoint [OF fin notin])
  qed
qed

lemma countUserSites_card:
  assumes "rangeKeysOK (sites m) (rangeSites os (sites m))"
  shows "countUserSitesUnlocked os m u = card {k. \<exists>s. sites m k = Some s \<and> UserID s = u}"
proof -
  let ?ks = "rangeSites os (sites m)"
  have d: "distinct ?ks" and st: "set ?ks = dom (sites m)"
    using assms by (simp_all add: rangeKeysOK_def)
  have "{k \<in> set ?ks. \<exists>s. sites m k = Some s \<and> UserID s = u} = {k. \<exists>s. sites m k = Some s \<and> UserID s = u}"
    unfolding st by auto
  then show ?thesis
    unfolding countUserSitesUnlocked_def rangeValues_def
    using count_filter_map_filter [OF d, of "\<lambda>s. UserID s = u" "sites m"] by simp
qed

lemma bob_username: "getUsernameFromID osBob ''bob'' = ''bob''"
  by (simp add: getUsernameFromID_def osBob_def os0_def)

lemma bob_range: "rangeKeysOK (sites regBob) (rangeSites osBob (sites regBob))"
  by (simp add: rangeKeysOK_def regBob_def osBob_def os0_def)

lemma bob_count: "countUserSitesUnlocked osBob regBob ''bob'' = 1"
  by (simp add: countUserSitesUnlocked_def rangeValues_def List.map_filter_simps regBob_def
        osBob_def os0_def)

lemma bob_card: "card {k. \<exists>s. sites regBob k = Some s \<and> UserID s = ''bob''} = 1"
  using countUserSites_card [OF bob_range, of "''bob''"] bob_count by simp

lemma invalid_56: "\<not> validPHP cfg0 ''5.6''"
  by (simp add: validPHP_def cfg0_def)

lemma siteLimitReached_card:
  assumes "rangeKeysOK (sites m) (rangeSites os (sites m))"
  shows "siteLimitReached os m site
     = (UserID site \<noteq> [] \<and> UserID site \<noteq> ''admin''
        \<and> (\<exists>limit. userLimits m (getUsernameFromID os (UserID site)) = Some limit
              \<and> MaxSites limit > 0
              \<and> int (card {k. \<exists>s. sites m k = Some s \<and> UserID s = UserID site}) \<ge> MaxSites limit))"
  by (auto simp: siteLimitReached_def Let_def countUserSites_card [OF assms] split: option.splits)

lemma Create_limit_iff:
  "(fst (Create cfg os site (m, w)) = Inl ErrSiteLimitReached)
     = (domains m (Domain site) = None
        \<and> find (\<lambda>alias. domains m alias \<noteq> None) (sliceOf (Aliases site)) = None
        \<and> siteLimitReached os m site)"
proof (cases "domains m (Domain site) = None")
  case False
  then show ?thesis using Create_domain_taken [of m site cfg os w] by simp
next
  case True
  note free = True
  show ?thesis
  proof (cases "find (\<lambda>alias. domains m alias \<noteq> None) (sliceOf (Aliases site))")
    case (Some taken)
    then show ?thesis using Create_alias_taken [OF free Some, of cfg os w] by simp
  next
    case None
    show ?thesis
    proof (cases "siteLimitReached os m site")
      case True
      then show ?thesis using Create_limit_reached [OF free None True, of cfg w] free None by simp
    next
      case nr: False
      show ?thesis
      proof (cases "validPHP cfg (PHPVersion site)")
        case True
        then show ?thesis using Create_after_checks [OF free None nr True, of w] nr by simp
      next
        case False
        then show ?thesis using Create_invalid_php [OF free None nr False, of w] nr by simp
      qed
    qed
  qed
qed

lemma uid_names:
  "getUsernameFromID osUid ''1001'' = ''bob''" "getUsernameFromID osUid ''bob'' = ''bob''"
  by (simp_all add: getUsernameFromID_def osUid_def osBob_def os0_def)

lemma uid_create:
  "fst (Create cfg0 osUid (siteB\<lparr>UserID := ''bob''\<rparr>) (regUid, w0))
     = Inr (siteB\<lparr>UserID := ''bob'', CreatedAt := 0, UpdatedAt := 1\<rparr>)"
  by (simp add: evalCreate countUserSitesUnlocked_def rangeValues_def List.map_filter_simps
        getUsernameFromID_def cfg0_def osUid_def osBob_def os0_def siteB_def storedA_def siteA_def
        site0_def regUid_def limitBob_def)

text \<open>
  C4, as the claim states it, fails: three checks come before the check of the version,
  and each of them decides the error when it fails. A site with a version that is not in
  the table gets the domain error when its domain is in the index, the alias error when
  its domain is free and one of its aliases is in the index, and the site-limit error
  when its domain and aliases are free and the limit of its owner is reached.
\<close>

theorem create_invalid_php_counterexample:
  "\<not> validPHP cfg0 (PHPVersion (siteA\<lparr>PHPVersion := ''5.6''\<rparr>))
   \<and> Create cfg0 os0 (siteA\<lparr>PHPVersion := ''5.6''\<rparr>) (regA, w0) = (Inl ErrDomainExists, regA, w0)
   \<and> \<not> validPHP cfg0 (PHPVersion (siteB\<lparr>Aliases := Some [''x.test''], PHPVersion := ''5.6''\<rparr>))
   \<and> Create cfg0 os0 (siteB\<lparr>Aliases := Some [''x.test''], PHPVersion := ''5.6''\<rparr>) (regA, w0)
       = (Inl (AliasExists ''x.test''), regA, w0)
   \<and> \<not> validPHP cfg0 (PHPVersion (siteB\<lparr>UserID := ''bob'', PHPVersion := ''5.6''\<rparr>))
   \<and> Create cfg0 osBob (siteB\<lparr>UserID := ''bob'', PHPVersion := ''5.6''\<rparr>) (regBob, w0)
       = (Inl ErrSiteLimitReached, regBob, w0)"
proof -
  have a: "Create cfg0 os0 (siteA\<lparr>PHPVersion := ''5.6''\<rparr>) (regA, w0) = (Inl ErrDomainExists, regA, w0)"
    by (simp add: Create.simps regA_def siteA_def site0_def)
  have b: "Create cfg0 os0 (siteB\<lparr>Aliases := Some [''x.test''], PHPVersion := ''5.6''\<rparr>) (regA, w0)
       = (Inl (AliasExists ''x.test''), regA, w0)"
    by (simp add: Create.simps sliceOf_def regA_def siteB_def site0_def)
  have c: "Create cfg0 osBob (siteB\<lparr>UserID := ''bob'', PHPVersion := ''5.6''\<rparr>) (regBob, w0)
       = (Inl ErrSiteLimitReached, regBob, w0)"
  proof (rule Create_limit_reached)
    show "domains regBob (Domain (siteB\<lparr>UserID := ''bob'', PHPVersion := ''5.6''\<rparr>)) = None"
      by (simp add: regBob_def siteB_def site0_def)
    show "find (\<lambda>alias. domains regBob alias \<noteq> None)
            (sliceOf (Aliases (siteB\<lparr>UserID := ''bob'', PHPVersion := ''5.6''\<rparr>))) = None"
      by (simp add: sliceOf_def siteB_def site0_def)
    have "userLimits regBob ''bob'' = Some limitBob" "MaxSites limitBob = 1"
      by (simp_all add: regBob_def limitBob_def)
    then show "siteLimitReached osBob regBob (siteB\<lparr>UserID := ''bob'', PHPVersion := ''5.6''\<rparr>)"
      by (simp add: siteLimitReached_def bob_username bob_count)
  qed
  show ?thesis using a b c invalid_56 by simp
qed

text \<open>
  C4, amended: \<^verbatim>\<open>Create\<close> with a PHP version that is not an enabled version of the
  table returns an error and leaves the registry, the directories, the files and the
  snapshot as they were. The error is that of the first check that fails, in the order
  of the code: the domain error when the domain is in the index; otherwise the alias
  error, naming the first alias of the site that is in the index; otherwise the
  site-limit error when the site limit of the owner is reached; otherwise the
  invalid-version error.
\<close>

theorem create_invalid_php_no_effect:
  assumes "\<not> validPHP cfg (PHPVersion site)"
  shows "Create cfg os site (m, w)
    = (Inl (if domains m (Domain site) \<noteq> None then ErrDomainExists
            else case find (\<lambda>alias. domains m alias \<noteq> None) (sliceOf (Aliases site)) of
                   Some alias \<Rightarrow> AliasExists alias
                 | None \<Rightarrow> if siteLimitReached os m site then ErrSiteLimitReached
                           else ErrInvalidPHPVersion),
       m, w)"
proof (cases "domains m (Domain site) = None")
  case False
  then show ?thesis using Create_domain_taken [of m site cfg os w] by simp
next
  case True
  note free = True
  show ?thesis
  proof (cases "find (\<lambda>alias. domains m alias \<noteq> None) (sliceOf (Aliases site))")
    case (Some taken)
    then show ?thesis using Create_alias_taken [OF free Some, of cfg os w] free by simp
  next
    case None
    show ?thesis
    proof (cases "siteLimitReached os m site")
      case True
      then show ?thesis using Create_limit_reached [OF free None True, of cfg w] free None by simp
    next
      case False
      then show ?thesis using Create_invalid_php [OF free None False assms, of w] free None by simp
    qed
  qed
qed

theorem create_invalid_php_no_effect_witness:
  "Create cfg0 os0 (siteB\<lparr>PHPVersion := ''5.6''\<rparr>) (regA, w0) = (Inl ErrInvalidPHPVersion, regA, w0)
   \<and> Create cfg0 os0 (siteB\<lparr>Aliases := Some [''n.test'', ''x.test'', ''a.test''], PHPVersion := ''5.6''\<rparr>)
         (regA, w0)
       = (Inl (AliasExists ''x.test''), regA, w0)"
proof -
  have a: "\<not> validPHP cfg0 (PHPVersion (siteB\<lparr>PHPVersion := ''5.6''\<rparr>))"
    "\<not> validPHP cfg0 (PHPVersion (siteB\<lparr>Aliases := Some [''n.test'', ''x.test'', ''a.test''], PHPVersion := ''5.6''\<rparr>))"
    using invalid_56 by simp_all
  have b: "domains regA (Domain (siteB\<lparr>PHPVersion := ''5.6''\<rparr>)) = None"
    "domains regA (Domain (siteB\<lparr>Aliases := Some [''n.test'', ''x.test'', ''a.test''], PHPVersion := ''5.6''\<rparr>)) = None"
    by (simp_all add: regA_def siteB_def site0_def)
  have c: "find (\<lambda>alias. domains regA alias \<noteq> None) (sliceOf (Aliases (siteB\<lparr>PHPVersion := ''5.6''\<rparr>))) = None"
    "find (\<lambda>alias. domains regA alias \<noteq> None)
       (sliceOf (Aliases (siteB\<lparr>Aliases := Some [''n.test'', ''x.test'', ''a.test''], PHPVersion := ''5.6''\<rparr>)))
     = Some ''x.test''"
    by (simp_all add: siteB_def site0_def sliceOf_def regA_def)
  have d: "\<not> siteLimitReached os0 regA (siteB\<lparr>PHPVersion := ''5.6''\<rparr>)"
    by (simp add: siteLimitReached_def siteB_def site0_def)
  show ?thesis
    using create_invalid_php_no_effect [OF a(1), of os0 regA w0]
      create_invalid_php_no_effect [OF a(2), of os0 regA w0]
    unfolding b c using d by simp
qed

text \<open>
  C6, as the claim states it, fails twice. The domain check comes before the quota
  check, so for an owner at the limit a site with a taken domain gets the domain error,
  not the quota error. And the count is one of equal \<^verbatim>\<open>UserID\<close> strings, while the
  limits are looked up under the user name: the owner \<^verbatim>\<open>bob\<close>, whose limit is one
  site, has a site stored under the numeric id \<^verbatim>\<open>1001\<close>, and a \<^verbatim>\<open>Create\<close> under the
  name \<^verbatim>\<open>bob\<close> succeeds.
\<close>

theorem create_quota_counterexample:
  "UserID (siteA\<lparr>UserID := ''bob''\<rparr>) \<noteq> [] \<and> UserID (siteA\<lparr>UserID := ''bob''\<rparr>) \<noteq> ''admin''
   \<and> userLimits regBob (getUsernameFromID osBob (UserID (siteA\<lparr>UserID := ''bob''\<rparr>))) = Some limitBob
   \<and> MaxSites limitBob > 0
   \<and> int (countUserSitesUnlocked osBob regBob (UserID (siteA\<lparr>UserID := ''bob''\<rparr>))) \<ge> MaxSites limitBob
   \<and> fst (Create cfg0 osBob (siteA\<lparr>UserID := ''bob''\<rparr>) (regBob, w0)) = Inl ErrDomainExists
   \<and> sites regUid ''A'' = Some (storedA\<lparr>UserID := ''1001''\<rparr>)
   \<and> getUsernameFromID osUid (UserID (storedA\<lparr>UserID := ''1001''\<rparr>)) = ''bob''
   \<and> getUsernameFromID osUid (UserID (siteB\<lparr>UserID := ''bob''\<rparr>)) = ''bob''
   \<and> userLimits regUid ''bob'' = Some limitBob
   \<and> MaxSites limitBob = 1
   \<and> fst (Create cfg0 osUid (siteB\<lparr>UserID := ''bob''\<rparr>) (regUid, w0))
       = Inr (siteB\<lparr>UserID := ''bob'', CreatedAt := 0, UpdatedAt := 1\<rparr>)"
proof -
  have a: "fst (Create cfg0 osBob (siteA\<lparr>UserID := ''bob''\<rparr>) (regBob, w0)) = Inl ErrDomainExists"
    by (simp add: Create.simps regBob_def siteA_def site0_def)
  have b: "userLimits regBob ''bob'' = Some limitBob" "MaxSites limitBob = 1"
    "sites regUid ''A'' = Some (storedA\<lparr>UserID := ''1001''\<rparr>)" "userLimits regUid ''bob'' = Some limitBob"
    by (simp_all add: regBob_def regUid_def limitBob_def)
  show ?thesis
    using a b uid_create by (simp add: bob_username bob_count uid_names)
qed

text \<open>
  C6, amended: \<^verbatim>\<open>Create\<close> fails with the site-limit error exactly when all of this
  holds: the domain and the aliases of the site are free; its \<^verbatim>\<open>UserID\<close> is neither
  empty nor \<^verbatim>\<open>admin\<close>; limits are stored under the user name the system gives for
  that \<^verbatim>\<open>UserID\<close>, with a positive \<^verbatim>\<open>MaxSites\<close>; and the number of stored sites whose
  \<^verbatim>\<open>UserID\<close> is the same string as that of the new site is at least \<^verbatim>\<open>MaxSites\<close>. So
  the quota check rejects no \<^verbatim>\<open>Create\<close> when \<^verbatim>\<open>MaxSites\<close> is 0, when no limits are
  stored under that name, or when the owner is exempt, and sites stored under another
  spelling of the owner (the numeric id instead of the name) are not counted. A
  \<^verbatim>\<open>Create\<close> that fails the conflict check returns the conflict error, whatever the
  count: the domain error when the domain is in the index, otherwise the alias error
  for the first alias that is in the index. The order of visit is one of the site map.
\<close>

theorem create_quota_rule:
  assumes "rangeKeysOK (sites m) (rangeSites os (sites m))"
  shows "((fst (Create cfg os site (m, w)) = Inl ErrSiteLimitReached)
          = (domains m (Domain site) = None
             \<and> (\<forall>alias \<in> set (sliceOf (Aliases site)). domains m alias = None)
             \<and> UserID site \<noteq> [] \<and> UserID site \<noteq> ''admin''
             \<and> (\<exists>limit. userLimits m (getUsernameFromID os (UserID site)) = Some limit
                   \<and> MaxSites limit > 0
                   \<and> int (card {k. \<exists>s. sites m k = Some s \<and> UserID s = UserID site})
                       \<ge> MaxSites limit)))
    \<and> (domains m (Domain site) \<noteq> None
        \<longrightarrow> Create cfg os site (m, w) = (Inl ErrDomainExists, m, w))
    \<and> (domains m (Domain site) = None
        \<and> find (\<lambda>alias. domains m alias \<noteq> None) (sliceOf (Aliases site)) = Some taken
        \<longrightarrow> Create cfg os site (m, w) = (Inl (AliasExists taken), m, w))"
proof (intro conjI impI)
  show "(fst (Create cfg os site (m, w)) = Inl ErrSiteLimitReached)
          = (domains m (Domain site) = None
             \<and> (\<forall>alias \<in> set (sliceOf (Aliases site)). domains m alias = None)
             \<and> UserID site \<noteq> [] \<and> UserID site \<noteq> ''admin''
             \<and> (\<exists>limit. userLimits m (getUsernameFromID os (UserID site)) = Some limit
                   \<and> MaxSites limit > 0
                   \<and> int (card {k. \<exists>s. sites m k = Some s \<and> UserID s = UserID site})
                       \<ge> MaxSites limit))"
    unfolding Create_limit_iff find_None_aliases siteLimitReached_card [OF assms] by (rule refl)
next
  assume "domains m (Domain site) \<noteq> None"
  then show "Create cfg os site (m, w) = (Inl ErrDomainExists, m, w)"
    by (rule Create_domain_taken)
next
  assume "domains m (Domain site) = None
        \<and> find (\<lambda>alias. domains m alias \<noteq> None) (sliceOf (Aliases site)) = Some taken"
  then show "Create cfg os site (m, w) = (Inl (AliasExists taken), m, w)"
    using Create_alias_taken by blast
qed

theorem create_quota_rule_witness:
  "fst (Create cfg0 osBob (siteB\<lparr>UserID := ''bob''\<rparr>) (regBob, w0)) = Inl ErrSiteLimitReached
   \<and> fst (Create cfg0 osBob siteB (regBob, w0)) \<noteq> Inl ErrSiteLimitReached
   \<and> Create cfg0 osBob (siteA\<lparr>UserID := ''bob''\<rparr>) (regBob, w0) = (Inl ErrDomainExists, regBob, w0)
   \<and> Create cfg0 osBob (siteB\<lparr>UserID := ''bob'', Aliases := Some [''x.test'']\<rparr>) (regBob, w0)
       = (Inl (AliasExists ''x.test''), regBob, w0)"
proof -
  have a: "UserID (siteB\<lparr>UserID := ''bob''\<rparr>) = ''bob''" "Domain (siteB\<lparr>UserID := ''bob''\<rparr>) = ''b.test''"
    "sliceOf (Aliases (siteB\<lparr>UserID := ''bob''\<rparr>)) = []"
    by (simp_all add: siteB_def site0_def sliceOf_def)
  have b: "userLimits regBob ''bob'' = Some limitBob" "domains regBob ''b.test'' = None"
    "MaxSites limitBob = 1"
    by (simp_all add: regBob_def limitBob_def)
  have c: "UserID siteB = []" by (simp add: siteB_def site0_def)
  have d: "domains regBob (Domain (siteA\<lparr>UserID := ''bob''\<rparr>)) \<noteq> None"
    by (simp add: regBob_def siteA_def site0_def)
  have e: "domains regBob (Domain (siteB\<lparr>UserID := ''bob'', Aliases := Some [''x.test'']\<rparr>)) = None
      \<and> find (\<lambda>alias. domains regBob alias \<noteq> None)
          (sliceOf (Aliases (siteB\<lparr>UserID := ''bob'', Aliases := Some [''x.test'']\<rparr>))) = Some ''x.test''"
    by (simp add: regBob_def siteB_def site0_def sliceOf_def)
  have 1: "fst (Create cfg0 osBob (siteB\<lparr>UserID := ''bob''\<rparr>) (regBob, w0)) = Inl ErrSiteLimitReached"
    using create_quota_rule [OF bob_range, of cfg0 "siteB\<lparr>UserID := ''bob''\<rparr>" w0]
    unfolding a b bob_username bob_card by (simp add: b)
  have 2: "fst (Create cfg0 osBob siteB (regBob, w0)) \<noteq> Inl ErrSiteLimitReached"
    using create_quota_rule [OF bob_range, of cfg0 siteB w0]
    unfolding c by simp
  have 3: "Create cfg0 osBob (siteA\<lparr>UserID := ''bob''\<rparr>) (regBob, w0) = (Inl ErrDomainExists, regBob, w0)"
    using create_quota_rule [OF bob_range, of cfg0 "siteA\<lparr>UserID := ''bob''\<rparr>" w0] d by blast
  have 4: "Create cfg0 osBob (siteB\<lparr>UserID := ''bob'', Aliases := Some [''x.test'']\<rparr>) (regBob, w0)
       = (Inl (AliasExists ''x.test''), regBob, w0)"
    using create_quota_rule [OF bob_range, of cfg0
        "siteB\<lparr>UserID := ''bob'', Aliases := Some [''x.test'']\<rparr>" w0 "''x.test''"] e by blast
  show ?thesis using 1 2 3 4 by simp
qed

section \<open>Save and Load: lemmas\<close>

lemma foldl_alias_map:
  "foldl (\<lambda>d alias. d(alias \<mapsto> v)) d0 as h = (if h \<in> set as then Some v else d0 h)"
  by (induction as arbitrary: d0) auto

lemma loadSite_domains:
  "domains (loadSite m site) h = (if h \<in> hostsOf site then Some (ID site) else domains m h)"
  by (simp add: loadSite_def foldl_alias_map hostsOf_def)

lemma loadSite_sites: "sites (loadSite m site) = (sites m)(ID site \<mapsto> site)"
  by (simp add: loadSite_def)

lemma loadSite_dataPath: "dataPath (foldl loadSite m xs) = dataPath m"
  by (induction xs arbitrary: m) (simp_all add: loadSite_def)

text \<open>The domain index after the loop, when all sites with the hostname have one identifier.\<close>

lemma foldl_loadSite_domains:
  assumes "\<forall>s \<in> set xs. h \<in> hostsOf s \<longrightarrow> ID s = i"
  shows "domains (foldl loadSite m xs) h
           = (if \<exists>s \<in> set xs. h \<in> hostsOf s then Some i else domains m h)"
  using assms
proof (induction xs arbitrary: m)
  case Nil
  show ?case by simp
next
  case (Cons x xs)
  have "domains (foldl loadSite (loadSite m x) xs) h
          = (if \<exists>s \<in> set xs. h \<in> hostsOf s then Some i else domains (loadSite m x) h)"
    using Cons by simp
  then show ?case using Cons.prems by (simp add: loadSite_domains)
qed

text \<open>The site map after the loop over the sites stored under distinct keys.\<close>

lemma foldl_loadSite_sites:
  assumes "distinct ks" and "\<forall>k site. f k = Some site \<longrightarrow> ID site = k"
  shows "sites (foldl loadSite m (List.map_filter f ks)) k
           = (if k \<in> set ks \<and> f k \<noteq> None then f k else sites m k)"
  using assms(1)
proof (induction ks arbitrary: m)
  case Nil
  show ?case by (simp add: List.map_filter_simps)
next
  case (Cons a ks)
  show ?case
  proof (cases "f a")
    case None
    then show ?thesis using Cons by (auto simp: List.map_filter_simps)
  next
    case (Some s)
    then have "ID s = a" using assms(2) by simp
    then show ?thesis using Some Cons by (auto simp: List.map_filter_simps loadSite_sites)
  qed
qed

lemma loadLimits_keeps:
  "sites (loadLimits w m) = sites m" "domains (loadLimits w m) = domains m"
proof -
  have "sites (foldl (\<lambda>m limit. m\<lparr>userLimits := (userLimits m)(Username limit \<mapsto> limit)\<rparr>) m ls) = sites m
      \<and> domains (foldl (\<lambda>m limit. m\<lparr>userLimits := (userLimits m)(Username limit \<mapsto> limit)\<rparr>) m ls) = domains m"
    for ls
    by (induction ls arbitrary: m) simp_all
  then show "sites (loadLimits w m) = sites m" "domains (loadLimits w m) = domains m"
    by (simp_all add: loadLimits_def split: fileState.splits)
qed

lemma set_rangeValues:
  assumes "rangeKeysOK f ks"
  shows "set (rangeValues f ks) = ran f"
  using assms unfolding rangeKeysOK_def rangeValues_def
  by (force simp: List.map_filter_def ran_def dom_def)

lemma regAB_keysAreIDs: "keysAreIDs regAB"
  by (simp add: keysAreIDs_def regAB_def storedA_def storedB_def siteA_def siteB_def site0_def)

lemma regAB_hosts:
  "hostsOf storedA = {''a.test'', ''x.test''}" "hostsOf storedB = {''b.test''}"
  by (auto simp: hostsOf_def storedA_def storedB_def siteA_def siteB_def site0_def sliceOf_def)

lemma regAB_indexConsistent: "indexConsistent regAB"
  unfolding indexConsistent_def regAB_def
  by (auto simp: regAB_hosts split: if_splits)

lemma regAB_range: "rangeKeysOK (sites regAB) (rangeSites os0 (sites regAB))"
  by (auto simp: rangeKeysOK_def regAB_def os0_def)

lemma failed_update_state:
  "sites (fst (snd (Update cfg0 os0 ''A'' aliasPatch (regAB, w0)))) = sites regAB"
  "domains (fst (snd (Update cfg0 os0 ''A'' aliasPatch (regAB, w0)))) = (domains regAB)(''x.test'' := None)"
  "dataPath (fst (snd (Update cfg0 os0 ''A'' aliasPatch (regAB, w0)))) = ''/data''"
  by (auto simp add: evalUpdate cfg0_def os0_def regAB_def storedA_def storedB_def siteA_def siteB_def
        site0_def aliasPatch_def)

section \<open>Save and Load: claims\<close>

text \<open>
  C7, as the claim states it, fails: \<^verbatim>\<open>Load\<close> builds the domain index from the sites of
  the snapshot, so a registry whose index does not agree with its sites does not come
  back. The state left by the failed \<^verbatim>\<open>Update\<close> above has no mapping for \<^verbatim>\<open>x.test\<close>;
  after \<^verbatim>\<open>Save\<close> and \<^verbatim>\<open>Load\<close> into a fresh manager the index maps it to A.
\<close>

theorem save_load_counterexample:
  "fst (Save os0 (fst (snd (Update cfg0 os0 ''A'' aliasPatch (regAB, w0)))) w0) = None
   \<and> domains (fst (snd (Update cfg0 os0 ''A'' aliasPatch (regAB, w0)))) ''x.test'' = None
   \<and> domains (snd (Load (snd (Save os0 (fst (snd (Update cfg0 os0 ''A'' aliasPatch (regAB, w0)))) w0))
                     (NewManager ''/data''))) ''x.test'' = Some ''A''"
  unfolding Save_def saveUnlocked_def Load_def Let_def failed_update_state
  by (simp add: rangeValues_def os0_def regAB_def NewManager_def evalPath w0_def loadLimits_keeps
      loadSite_domains hostsOf_def storedA_def storedB_def siteA_def siteB_def site0_def sliceOf_def)

text \<open>
  C7, amended: for every registry state whose sites are stored under their own
  identifiers and whose domain index is consistent with its sites, \<^verbatim>\<open>Save\<close> (when the
  directory creation and the write succeed) followed by \<^verbatim>\<open>Load\<close> into a fresh manager
  on the same data path gives the same site map and the same domain index, in whatever
  order \<^verbatim>\<open>Save\<close> visits the sites.
\<close>

theorem save_load_round_trip:
  assumes "keysAreIDs m" and "indexConsistent m"
    and "rangeKeysOK (sites m) (rangeSites os (sites m))"
    and "\<not> mkdirFails os (dataPath m)"
    and "\<not> writeFails os (filepath_Join [dataPath m, ''sites.json''])"
  shows "fst (Save os m w) = None
    \<and> fst (Load (snd (Save os m w)) (NewManager (dataPath m))) = None
    \<and> sites (snd (Load (snd (Save os m w)) (NewManager (dataPath m)))) = sites m
    \<and> domains (snd (Load (snd (Save os m w)) (NewManager (dataPath m)))) = domains m"
proof -
  let ?ks = "rangeSites os (sites m)"
  let ?xs = "rangeValues (sites m) ?ks"
  let ?path = "filepath_Join [dataPath m, ''sites.json'']"
  let ?w' = "snd (Save os m w)"
  let ?m0 = "NewManager (dataPath m)"
  have sv: "fst (Save os m w) = None" and content: "siteFiles ?w' ?path = Content ?xs"
    using assms(4,5) by (simp_all add: Save_def saveUnlocked_def Let_def)
  have dp: "dataPath ?m0 = dataPath m" by (simp add: NewManager_def)
  have ld: "Load ?w' ?m0 = (None, loadLimits ?w' (foldl loadSite ?m0 ?xs))"
    unfolding Load_def Let_def dp content by simp
  let ?m1 = "foldl loadSite ?m0 ?xs"
  have d: "distinct ?ks" and st: "set ?ks = dom (sites m)"
    using assms(3) by (simp_all add: rangeKeysOK_def)
  have ids: "\<forall>k site. sites m k = Some site \<longrightarrow> ID site = k"
    using assms(1) by (simp add: keysAreIDs_def)
  have s1: "sites ?m1 = sites m"
  proof
    fix k
    have "sites ?m1 k = (if k \<in> set ?ks \<and> sites m k \<noteq> None then sites m k else sites ?m0 k)"
      unfolding rangeValues_def by (rule foldl_loadSite_sites [OF d ids])
    moreover have "sites ?m0 k = None" by (simp add: NewManager_def)
    ultimately show "sites ?m1 k = sites m k"
      unfolding st by (cases "sites m k") (simp_all add: dom_def)
  qed
  have xs: "set ?xs = ran (sites m)" by (rule set_rangeValues [OF assms(3)])
  have host: "domains m h = Some (ID s)" if "s \<in> set ?xs" "h \<in> hostsOf s" for s h
  proof -
    from that(1) xs obtain k where "sites m k = Some s" by (auto simp: ran_def)
    then have "sites m (ID s) = Some s" using ids by auto
    then show ?thesis using assms(2) that(2) unfolding indexConsistent_def by blast
  qed
  have d1: "domains ?m1 = domains m"
  proof
    fix h
    show "domains ?m1 h = domains m h"
    proof (cases "domains m h")
      case None
      then have no: "\<not> (\<exists>s \<in> set ?xs. h \<in> hostsOf s)" using host by fastforce
      then have "\<forall>s \<in> set ?xs. h \<in> hostsOf s \<longrightarrow> ID s = []" by blast
      from foldl_loadSite_domains [OF this, of ?m0] no None show ?thesis
        by (simp add: NewManager_def)
    next
      case (Some i)
      then obtain site where si: "sites m i = Some site" "h \<in> hostsOf site"
        using assms(2) unfolding indexConsistent_def by blast
      then have mem: "site \<in> set ?xs" unfolding xs by (auto simp: ran_def)
      have all: "\<forall>s \<in> set ?xs. h \<in> hostsOf s \<longrightarrow> ID s = i"
        using host Some by fastforce
      from foldl_loadSite_domains [OF all, of ?m0] mem si(2) Some show ?thesis by auto
    qed
  qed
  show ?thesis
    using sv s1 d1 unfolding ld by (simp add: loadLimits_keeps)
qed

theorem save_load_round_trip_witness:
  "fst (Save os0 regAB w0) = None
   \<and> fst (Load (snd (Save os0 regAB w0)) (NewManager ''/data'')) = None
   \<and> sites (snd (Load (snd (Save os0 regAB w0)) (NewManager ''/data''))) = sites regAB
   \<and> domains (snd (Load (snd (Save os0 regAB w0)) (NewManager ''/data''))) = domains regAB"
proof -
  have dp: "dataPath regAB = ''/data''" by (simp add: regAB_def)
  have a: "\<not> mkdirFails os0 (dataPath regAB)"
    and b: "\<not> writeFails os0 (filepath_Join [dataPath regAB, ''sites.json''])"
    by (simp_all add: os0_def)
  show ?thesis
    using save_load_round_trip [OF regAB_keysAreIDs regAB_indexConsistent regAB_range a b, of w0]
    unfolding dp by simp
qed

section \<open>The enforcer: lemmas\<close>

lemma splitSlash_nonempty: "splitSlash p \<noteq> []"
  by (induction p) (auto split: list.splits)

lemma splitSlash_no_slash: "CHR ''/'' \<notin> set n \<Longrightarrow> splitSlash n = [n]"
  by (induction n) auto

lemma splitSlash_append:
  "splitSlash (a @ CHR ''/'' # b) = splitSlash a @ splitSlash b"
proof (induction a)
  case Nil
  show ?case by simp
next
  case (Cons c cs)
  obtain w ws where sp: "splitSlash cs = w # ws"
    using splitSlash_nonempty [of cs] by (cases "splitSlash cs") auto
  show ?case using Cons sp by simp
qed

lemma strings_Join_snoc:
  "strings_Join (xs @ [n]) sep = (if xs = [] then n else strings_Join xs sep @ sep @ n)"
  by (induction xs sep rule: strings_Join.induct) auto

lemma cleanStep_simple: "simpleName n \<Longrightarrow> cleanStep rooted out n = out @ [n]"
  by (simp add: cleanStep_def simpleName_def)

text \<open>A cleaned path whose last element is a plain name ends with that name.\<close>

lemma filepath_Clean_simple_last:
  assumes "simpleName n"
  shows "\<exists>pre. filepath_Clean (d @ CHR ''/'' # n) = pre @ n"
proof -
  let ?p = "d @ CHR ''/'' # n"
  let ?rooted = "hd ?p = CHR ''/''"
  let ?out = "foldl (cleanStep ?rooted) [] (splitSlash d)"
  have sp: "splitSlash ?p = splitSlash d @ [n]"
    using assms by (simp add: splitSlash_append splitSlash_no_slash simpleName_def)
  have out: "foldl (cleanStep ?rooted) [] (splitSlash ?p) = ?out @ [n]"
    unfolding sp by (simp add: cleanStep_simple [OF assms])
  have n: "n \<noteq> []" using assms by (simp add: simpleName_def)
  have "filepath_Clean ?p = (if ?rooted then ''/'' else []) @ strings_Join (?out @ [n]) ''/''"
    unfolding filepath_Clean_def Let_def out using n by (simp add: strings_Join_snoc)
  also have "\<dots> = ((if ?rooted then ''/'' else [])
                    @ (if ?out = [] then [] else strings_Join ?out ''/'' @ ''/'')) @ n"
    by (simp add: strings_Join_snoc)
  finally show ?thesis by blast
qed

lemma filepath_Clean_simple:
  assumes "simpleName n"
  shows "filepath_Clean n = n"
proof -
  have n: "n \<noteq> []" "CHR ''/'' \<notin> set n" using assms by (simp_all add: simpleName_def)
  then have "hd n \<noteq> CHR ''/''" by (cases n) auto
  then show ?thesis
    unfolding filepath_Clean_def Let_def
    using n by (simp add: splitSlash_no_slash cleanStep_simple [OF assms])
qed

lemma filepath_Join_simple_last:
  assumes "simpleName n"
  shows "\<exists>pre. filepath_Join [d, n] = pre @ n"
proof (cases "d = []")
  case True
  have "n \<noteq> []" using assms by (simp add: simpleName_def)
  then have "filepath_Join [d, n] = [] @ n"
    using True filepath_Clean_simple [OF assms] by (simp add: filepath_Join.simps)
  then show ?thesis by blast
next
  case False
  then have "filepath_Join [d, n] = filepath_Clean (d @ CHR ''/'' # n)"
    by (simp add: filepath_Join.simps)
  then show ?thesis using filepath_Clean_simple_last [OF assms, of d] by simp
qed

lemma tail_differs:
  assumes "a @ s = b @ t" and "length s \<ge> k" and "length t \<ge> k"
  shows "take k (rev s) = take k (rev t)"
proof -
  have "take k (rev (a @ s)) = take k (rev (b @ t))" using assms(1) by simp
  then show ?thesis using assms(2,3) by simp
qed

lemma control_files_distinct:
  "filepath_Join [d, ''memory.max''] \<noteq> filepath_Join [d, ''cpu.max'']"
  "filepath_Join [d, ''memory.max''] \<noteq> filepath_Join [d, ''pids.max'']"
  "filepath_Join [d, ''cpu.max''] \<noteq> filepath_Join [d, ''pids.max'']"
  "filepath_Join [d, ''memory.max''] \<noteq> filepath_Join [d', ''cgroup.subtree_control'']"
  "filepath_Join [d, ''cpu.max''] \<noteq> filepath_Join [d', ''cgroup.subtree_control'']"
  "filepath_Join [d, ''pids.max''] \<noteq> filepath_Join [d', ''cgroup.subtree_control'']"
proof -
  have s: "simpleName ''memory.max''" "simpleName ''cpu.max''" "simpleName ''pids.max''"
    "simpleName ''cgroup.subtree_control''"
    by (simp_all add: simpleName_def)
  obtain m where m: "filepath_Join [d, ''memory.max''] = m @ ''memory.max''"
    using filepath_Join_simple_last [OF s(1)] by blast
  obtain c where c: "filepath_Join [d, ''cpu.max''] = c @ ''cpu.max''"
    using filepath_Join_simple_last [OF s(2)] by blast
  obtain p where p: "filepath_Join [d, ''pids.max''] = p @ ''pids.max''"
    using filepath_Join_simple_last [OF s(3)] by blast
  obtain g where g: "filepath_Join [d', ''cgroup.subtree_control''] = g @ ''cgroup.subtree_control''"
    using filepath_Join_simple_last [OF s(4)] by blast
  show "filepath_Join [d, ''memory.max''] \<noteq> filepath_Join [d, ''cpu.max'']"
    unfolding m c using tail_differs [of m "''memory.max''" c "''cpu.max''" 5] by auto
  show "filepath_Join [d, ''memory.max''] \<noteq> filepath_Join [d, ''pids.max'']"
    unfolding m p using tail_differs [of m "''memory.max''" p "''pids.max''" 5] by auto
  show "filepath_Join [d, ''cpu.max''] \<noteq> filepath_Join [d, ''pids.max'']"
    unfolding c p using tail_differs [of c "''cpu.max''" p "''pids.max''" 5] by auto
  show "filepath_Join [d, ''memory.max''] \<noteq> filepath_Join [d', ''cgroup.subtree_control'']"
    unfolding m g using tail_differs [of m "''memory.max''" g "''cgroup.subtree_control''" 1] by auto
  show "filepath_Join [d, ''cpu.max''] \<noteq> filepath_Join [d', ''cgroup.subtree_control'']"
    unfolding c g using tail_differs [of c "''cpu.max''" g "''cgroup.subtree_control''" 1] by auto
  show "filepath_Join [d, ''pids.max''] \<noteq> filepath_Join [d', ''cgroup.subtree_control'']"
    unfolding p g using tail_differs [of p "''pids.max''" g "''cgroup.subtree_control''" 1] by auto
qed

text \<open>The file writes of applyCgroupLimits.\<close>

lemma applyCgroupLimits_writes:
  assumes "WriteFile p c \<in> set (snd (applyCgroupLimits os cgroupPath limits))"
  shows "p = filepath_Join [cgroupPath, ''cgroup.subtree_control'']
    \<or> (p = filepath_Join [filepath_Join [cgroupPath, ''fastcp-'' @ Username limits], ''memory.max'']
         \<and> sint (MaxRAMMB limits) > 0)
    \<or> (p = filepath_Join [filepath_Join [cgroupPath, ''fastcp-'' @ Username limits], ''cpu.max'']
         \<and> sint (MaxCPUPercent limits) > 0)
    \<or> (p = filepath_Join [filepath_Join [cgroupPath, ''fastcp-'' @ Username limits], ''pids.max'']
         \<and> sint (MaxProcesses limits) > 0)"
  using assms unfolding applyCgroupLimits_def Let_def
  by (auto split: if_splits)

lemma applyCgroupLimits_no_exec:
  "Exec prog args \<notin> set (snd (applyCgroupLimits os cgroupPath limits))"
  unfolding applyCgroupLimits_def Let_def by (auto split: if_splits)

lemma applyDiskQuota_no_write:
  "WriteFile p c \<notin> set (snd (applyDiskQuota os limits))"
  unfolding applyDiskQuota_def lookupUser_def Let_def
  by (auto split: if_splits option.splits)

lemma applyDiskQuota_zero:
  "MaxDiskMB limits = 0 \<Longrightarrow> applyDiskQuota os limits = (None, [])"
  by (simp add: applyDiskQuota_def)

lemma ApplyLimits_log:
  "set (snd (ApplyLimits os cgroupPath limits))
     \<subseteq> set (snd (applyCgroupLimits os cgroupPath limits)) \<union> set (snd (applyDiskQuota os limits))"
  unfolding ApplyLimits_def Let_def by (auto split: prod.splits)

text \<open>The scenario of the specification: 50 percent of a core is the pair 50000 100000.\<close>

lemma halfCore_log:
  "ApplyLimits linuxOS ''/sys/fs/cgroup'' halfCore =
     (None, [MkdirAll ''/sys/fs/cgroup/fastcp-bob'',
             WriteFile ''/sys/fs/cgroup/cgroup.subtree_control'' ''+cpu +memory +pids'',
             WriteFile ''/sys/fs/cgroup/fastcp-bob/cpu.max'' ''50000 100000''])"
  by (simp add: ApplyLimits_def applyCgroupLimits_def applyDiskQuota_def linuxOS_def halfCore_def
        evalPath evalShow Let_def signed_divide_int_def)

section \<open>The enforcer: claims\<close>

text \<open>
  C9: when \<^verbatim>\<open>MaxRAMMB\<close> is 0 no call of \<^verbatim>\<open>ApplyLimits\<close> writes the file
  \<^verbatim>\<open>memory.max\<close> of the tenant's cgroup, whatever the content; likewise \<^verbatim>\<open>cpu.max\<close>
  when \<^verbatim>\<open>MaxCPUPercent\<close> is 0 and \<^verbatim>\<open>pids.max\<close> when \<^verbatim>\<open>MaxProcesses\<close> is 0; and when
  \<^verbatim>\<open>MaxDiskMB\<close> is 0 the quota part makes no call at all and \<^verbatim>\<open>ApplyLimits\<close> runs no
  program.
\<close>

theorem zero_limit_writes_no_control:
  "(MaxRAMMB limits = 0 \<longrightarrow>
      WriteFile (filepath_Join [filepath_Join [cgroupPath, ''fastcp-'' @ Username limits], ''memory.max''])
        content \<notin> set (snd (ApplyLimits os cgroupPath limits)))
   \<and> (MaxCPUPercent limits = 0 \<longrightarrow>
      WriteFile (filepath_Join [filepath_Join [cgroupPath, ''fastcp-'' @ Username limits], ''cpu.max''])
        content \<notin> set (snd (ApplyLimits os cgroupPath limits)))
   \<and> (MaxProcesses limits = 0 \<longrightarrow>
      WriteFile (filepath_Join [filepath_Join [cgroupPath, ''fastcp-'' @ Username limits], ''pids.max''])
        content \<notin> set (snd (ApplyLimits os cgroupPath limits)))
   \<and> (MaxDiskMB limits = 0 \<longrightarrow>
      applyDiskQuota os limits = (None, [])
      \<and> Exec prog args \<notin> set (snd (ApplyLimits os cgroupPath limits)))"
proof -
  let ?dir = "filepath_Join [cgroupPath, ''fastcp-'' @ Username limits]"
  let ?log = "snd (ApplyLimits os cgroupPath limits)"
  have w: "p = filepath_Join [cgroupPath, ''cgroup.subtree_control'']
    \<or> (p = filepath_Join [?dir, ''memory.max''] \<and> sint (MaxRAMMB limits) > 0)
    \<or> (p = filepath_Join [?dir, ''cpu.max''] \<and> sint (MaxCPUPercent limits) > 0)
    \<or> (p = filepath_Join [?dir, ''pids.max''] \<and> sint (MaxProcesses limits) > 0)"
    if "WriteFile p c \<in> set ?log" for p c
    using that ApplyLimits_log [of os cgroupPath limits] applyDiskQuota_no_write
      applyCgroupLimits_writes by blast
  have mem: "WriteFile (filepath_Join [?dir, ''memory.max'']) content \<notin> set ?log"
    if "MaxRAMMB limits = 0"
  proof
    assume "WriteFile (filepath_Join [?dir, ''memory.max'']) content \<in> set ?log"
    from w [OF this] that show False
      by (auto simp: control_files_distinct control_files_distinct [symmetric])
  qed
  have cpu: "WriteFile (filepath_Join [?dir, ''cpu.max'']) content \<notin> set ?log"
    if "MaxCPUPercent limits = 0"
  proof
    assume "WriteFile (filepath_Join [?dir, ''cpu.max'']) content \<in> set ?log"
    from w [OF this] that show False
      by (auto simp: control_files_distinct control_files_distinct [symmetric])
  qed
  have pids: "WriteFile (filepath_Join [?dir, ''pids.max'']) content \<notin> set ?log"
    if "MaxProcesses limits = 0"
  proof
    assume "WriteFile (filepath_Join [?dir, ''pids.max'']) content \<in> set ?log"
    from w [OF this] that show False
      by (auto simp: control_files_distinct control_files_distinct [symmetric])
  qed
  have disk: "applyDiskQuota os limits = (None, []) \<and> Exec prog args \<notin> set ?log"
    if "MaxDiskMB limits = 0"
    using applyDiskQuota_zero [OF that, of os] ApplyLimits_log [of os cgroupPath limits]
      applyCgroupLimits_no_exec by auto
  show ?thesis using mem cpu pids disk by blast
qed

theorem zero_limit_writes_no_control_witness:
  "WriteFile ''/sys/fs/cgroup/fastcp-bob/memory.max'' ''0''
     \<notin> set (snd (ApplyLimits linuxOS ''/sys/fs/cgroup'' halfCore))
   \<and> WriteFile ''/sys/fs/cgroup/fastcp-bob/pids.max'' ''0''
     \<notin> set (snd (ApplyLimits linuxOS ''/sys/fs/cgroup'' halfCore))
   \<and> applyDiskQuota linuxOS halfCore = (None, [])
   \<and> Exec ''setquota'' [] \<notin> set (snd (ApplyLimits linuxOS ''/sys/fs/cgroup'' halfCore))
   \<and> WriteFile ''/sys/fs/cgroup/fastcp-bob/cpu.max'' ''0''
     \<notin> set (snd (ApplyLimits linuxOS ''/sys/fs/cgroup'' (halfCore\<lparr>MaxCPUPercent := 0\<rparr>)))"
proof -
  have z: "MaxRAMMB halfCore = 0" "MaxProcesses halfCore = 0" "MaxDiskMB halfCore = 0"
    "MaxCPUPercent (halfCore\<lparr>MaxCPUPercent := 0\<rparr>) = 0"
    "Username halfCore = ''bob''" "Username (halfCore\<lparr>MaxCPUPercent := 0\<rparr>) = ''bob''"
    by (simp_all add: halfCore_def)
  have p: "filepath_Join [''/sys/fs/cgroup'', ''fastcp-'' @ ''bob''] = ''/sys/fs/cgroup/fastcp-bob''"
    "filepath_Join [''/sys/fs/cgroup/fastcp-bob'', ''memory.max''] = ''/sys/fs/cgroup/fastcp-bob/memory.max''"
    "filepath_Join [''/sys/fs/cgroup/fastcp-bob'', ''cpu.max''] = ''/sys/fs/cgroup/fastcp-bob/cpu.max''"
    "filepath_Join [''/sys/fs/cgroup/fastcp-bob'', ''pids.max''] = ''/sys/fs/cgroup/fastcp-bob/pids.max''"
    by (simp_all add: evalPath)
  show ?thesis
    using zero_limit_writes_no_control [of halfCore "''/sys/fs/cgroup''" "''0''" linuxOS "''setquota''" "[]"]
      zero_limit_writes_no_control [of "halfCore\<lparr>MaxCPUPercent := 0\<rparr>" "''/sys/fs/cgroup''" "''0''" linuxOS "''setquota''" "[]"]
    unfolding z p by blast
qed

end
